theory Spec2Isabelle
  imports Main "HOL-Library.AList" "HOL-Library.Sublist"
begin

section \<open>JavaScript strings and the regular expressions of the source\<close>

text \<open>
  A JavaScript string is modelled as a \<open>string\<close>: a list of characters whose codes are
  the string's code units (the model covers code units below 256). A value that is a
  string or \<open>null\<close>/\<open>undefined\<close> is a \<open>string option\<close>; it is truthy when it is a
  non-empty string.
\<close>

definition startsWith :: "string \<Rightarrow> string \<Rightarrow> bool" where
  "startsWith s p = (take (length p) s = p)"

fun js_includes :: "string \<Rightarrow> string \<Rightarrow> bool" where
  "js_includes [] sub = (sub = [])"
| "js_includes (c # cs) sub = (startsWith (c # cs) sub \<or> js_includes cs sub)"

definition truthy :: "string option \<Rightarrow> bool" where
  "truthy v = (case v of None \<Rightarrow> False | Some s \<Rightarrow> s \<noteq> [])"

text \<open>The key under which \<open>obj[k]\<close> looks when \<open>k\<close> may be \<open>undefined\<close>.\<close>

definition prop_key :: "string option \<Rightarrow> string" where
  "prop_key k = (case k of None \<Rightarrow> ''undefined'' | Some s \<Rightarrow> s)"

text \<open>
  \<open>String.prototype.toLowerCase\<close> on code units below 256: the letters \<open>A\<close> to \<open>Z\<close> and
  the capital letters of Latin-1 (\<open>0xC0\<close> to \<open>0xDE\<close> without the sign \<open>0xD7\<close>).
\<close>

definition lower_char :: "char \<Rightarrow> char" where
  "lower_char c =
     (let n = (of_char c :: nat)
      in if (65 \<le> n \<and> n \<le> 90) \<or> (192 \<le> n \<and> n \<le> 222 \<and> n \<noteq> 215)
         then char_of (n + 32) else c)"

definition toLowerCase :: "string \<Rightarrow> string" where
  "toLowerCase s = map lower_char s"

text \<open>The class \<open>\s\<close> on code units below 256, and the class \<open>[^'")\s]\<close>.\<close>

definition is_space :: "char \<Rightarrow> bool" where
  "is_space c = (of_char c \<in> {9, 10, 11, 12, 13, 32, 160 :: nat})"

definition is_quote :: "char \<Rightarrow> bool" where
  "is_quote c = (c = CHR 0x27 \<or> c = CHR 0x22)"

definition url_char :: "char \<Rightarrow> bool" where
  "url_char c = (\<not> is_quote c \<and> c \<noteq> CHR 0x29 \<and> \<not> is_space c)"

text \<open>\<open>['"]?\<close> at the head of a string: the quote consumed (or nothing) and the rest.\<close>

fun opt_quote :: "string \<Rightarrow> string \<times> string" where
  "opt_quote [] = ([], [])"
| "opt_quote (c # cs) = (if is_quote c then ([c], cs) else ([], c # cs))"

text \<open>
  \<open>/url\(['"]?([^'")\s]+)['"]?\)/\<close> matched at the head of a string: the matched text
  and capture group 1. The greedy quantifiers never gain from backtracking: a shorter
  run is followed by a character of the run, which is neither a quote nor \<open>)\<close>.
\<close>

definition url_at :: "string \<Rightarrow> (string \<times> string) option" where
  "url_at s =
     (if startsWith s ''url('' then
        (let (q1, s1) = opt_quote (drop 4 s);
             run = takeWhile url_char s1;
             (q2, s2) = opt_quote (dropWhile url_char s1)
         in if run = [] then None
            else (case s2 of
                    [] \<Rightarrow> None
                  | c # _ \<Rightarrow> if c = CHR 0x29 then Some (''url('' @ q1 @ run @ q2 @ '')'', run)
                            else None))
      else None)"

text \<open>
  \<open>s.match(re)\<close> with the flag \<open>g\<close>: the matched texts from left to right, the search
  resuming where the last match ended. The counter is the number of characters the
  last match still covers. No match (\<open>null\<close> in the source) is the empty list.
\<close>

fun match_all :: "(string \<Rightarrow> (string \<times> string) option) \<Rightarrow> nat \<Rightarrow> string \<Rightarrow> string list" where
  "match_all re k [] = []"
| "match_all re (Suc k) (c # cs) = match_all re k cs"
| "match_all re 0 (c # cs) =
     (case re (c # cs) of
        Some (m, g) \<Rightarrow> m # match_all re (length m - 1) cs
      | None \<Rightarrow> match_all re 0 cs)"

text \<open>\<open>s.match(re)[1]\<close> without the flag \<open>g\<close>: group 1 of the leftmost match.\<close>

fun exec1 :: "(string \<Rightarrow> (string \<times> string) option) \<Rightarrow> string \<Rightarrow> string option" where
  "exec1 re [] = None"
| "exec1 re (c # cs) = (case re (c # cs) of Some (m, g) \<Rightarrow> Some g | None \<Rightarrow> exec1 re cs)"

text \<open>
  \<open>/@import\s+(?:url\()?['"]?([^'")\s]+)['"]?\)?/\<close> at the head of a string. When the
  optional group \<open>url\(\<close> is taken and no character of the run follows, the matcher
  backtracks and reads \<open>url(\<close> as the start of the run.
\<close>

definition import_tail :: "string \<Rightarrow> (string \<times> string) option" where
  "import_tail t =
     (let (q1, t1) = opt_quote t;
          run = takeWhile url_char t1;
          (q2, t2) = opt_quote (dropWhile url_char t1);
          p = (case t2 of [] \<Rightarrow> [] | c # _ \<Rightarrow> if c = CHR 0x29 then '')'' else [])
      in if run = [] then None else Some (q1 @ run @ q2 @ p, run))"

definition import_at :: "string \<Rightarrow> (string \<times> string) option" where
  "import_at s =
     (if startsWith s ''@import'' then
        (let ws = takeWhile is_space (drop 7 s);
             s2 = dropWhile is_space (drop 7 s)
         in if ws = [] then None
            else (case (if startsWith s2 ''url('' then import_tail (drop 4 s2) else None) of
                    Some (m, g) \<Rightarrow> Some (''@import'' @ ws @ ''url('' @ m, g)
                  | None \<Rightarrow>
                      (case import_tail s2 of
                         Some (m, g) \<Rightarrow> Some (''@import'' @ ws @ m, g)
                       | None \<Rightarrow> None)))
      else None)"

text \<open>\<open>/['"]?([^'")\s]+)['"]?/\<close> at the head of a string.\<close>

definition plain_at :: "string \<Rightarrow> (string \<times> string) option" where
  "plain_at s =
     (let (q1, s1) = opt_quote s;
          run = takeWhile url_char s1;
          (q2, s2) = opt_quote (dropWhile url_char s1)
      in if run = [] then None else Some (q1 @ run @ q2, run))"

text \<open>
  The replacement text of \<open>String.prototype.replace\<close>: \<open>$$\<close>, \<open>$&\<close>, \<open>$`\<close> and \<open>$'\<close>
  are expanded (the patterns built by the source have no capture group, so \<open>$1\<close> and
  the like stay as they are).
\<close>

fun expand_replacement :: "string \<Rightarrow> string \<Rightarrow> string \<Rightarrow> string \<Rightarrow> string" where
  "expand_replacement matched left right (c # d # r) =
     (if c = CHR ''$'' \<and> d = CHR ''$'' then CHR ''$'' # expand_replacement matched left right r
      else if c = CHR ''$'' \<and> d = CHR ''&'' then matched @ expand_replacement matched left right r
      else if c = CHR ''$'' \<and> d = CHR 0x60 then left @ expand_replacement matched left right r
      else if c = CHR ''$'' \<and> d = CHR 0x27 then right @ expand_replacement matched left right r
      else c # expand_replacement matched left right (d # r))"
| "expand_replacement matched left right r = r"

text \<open>
  \<open>s.replace(new RegExp(escaped, 'g'), repl)\<close> where \<open>escaped\<close> is \<open>pat\<close> with every
  regular-expression metacharacter escaped, so the pattern matches \<open>pat\<close> literally.
  \<open>pre\<close> is the text already passed, the counter the characters of the current match
  still to skip. The empty pattern matches before every character and at the end.
\<close>

fun replace_scan :: "string \<Rightarrow> string \<Rightarrow> string \<Rightarrow> nat \<Rightarrow> string \<Rightarrow> string" where
  "replace_scan pat repl pre k [] =
     (if pat = [] \<and> k = 0 then expand_replacement [] pre [] repl else [])"
| "replace_scan pat repl pre (Suc k) (c # cs) = replace_scan pat repl (pre @ [c]) k cs"
| "replace_scan pat repl pre 0 (c # cs) =
     (if pat = [] then
        expand_replacement [] pre (c # cs) repl @ c # replace_scan pat repl (pre @ [c]) 0 cs
      else if startsWith (c # cs) pat then
        expand_replacement pat pre (drop (length pat) (c # cs)) repl
          @ replace_scan pat repl (pre @ [c]) (length pat - 1) cs
      else c # replace_scan pat repl (pre @ [c]) 0 cs)"

definition replace_all :: "string \<Rightarrow> string \<Rightarrow> string \<Rightarrow> string" where
  "replace_all pat repl s = replace_scan pat repl [] 0 s"


section \<open>Exceptions, values and plain objects\<close>

text \<open>
  A call returns a value or throws; of the error thrown only \<open>error.message\<close> is read.
\<close>

datatype 'a completion = Normal 'a | Throw string

text \<open>The message of the first exception of a row of calls, if one throws.\<close>

fun first_throw :: "'a completion list \<Rightarrow> string option" where
  "first_throw [] = None"
| "first_throw (Normal x # cs) = first_throw cs"
| "first_throw (Throw e # cs) = Some e"

definition the_normal :: "'a \<Rightarrow> 'a completion \<Rightarrow> 'a" where
  "the_normal d c = (case c of Normal x \<Rightarrow> x | Throw e \<Rightarrow> d)"

text \<open>A loop \<open>xs.forEach(x => { acc = f(acc, x) })\<close> whose body may throw.\<close>

fun fold_try :: "('b \<Rightarrow> 'a \<Rightarrow> 'b completion) \<Rightarrow> 'b \<Rightarrow> 'a list \<Rightarrow> 'b completion" where
  "fold_try f acc [] = Normal acc"
| "fold_try f acc (x # xs) =
     (case f acc x of
        Throw e \<Rightarrow> Throw e
      | Normal acc' \<Rightarrow> fold_try f acc' xs)"

text \<open>
  A plain object used as a dictionary (\<open>assetMap\<close>, \<open>processedAssetMap\<close>) is the list of
  its own properties in the order of their creation; all of them hold strings. Behind
  it stands \<open>Object.prototype\<close>: reading a key the object does not own yields the
  member of that name, a function (or, for \<open>__proto__\<close>, the prototype object itself).
\<close>

type_synonym js_object = "(string \<times> string) list"

definition Object_prototype :: "string list" where
  "Object_prototype =
     [''constructor'', ''__defineGetter__'', ''__defineSetter__'', ''hasOwnProperty'',
      ''__lookupGetter__'', ''__lookupSetter__'', ''isPrototypeOf'', ''propertyIsEnumerable'',
      ''toString'', ''valueOf'', ''__proto__'', ''toLocaleString'']"

text \<open>What \<open>obj[key]\<close> reads: nothing, a string of the object's own, or an inherited member.\<close>

datatype js_value = Undefined | Str string | Member string

definition get_prop :: "js_object \<Rightarrow> string \<Rightarrow> js_value" where
  "get_prop obj key =
     (case map_of obj key of
        Some v \<Rightarrow> Str v
      | None \<Rightarrow> if key \<in> set Object_prototype then Member key else Undefined)"

text \<open>
  \<open>obj[key] = v\<close> for a string \<open>v\<close>: the property keeps its place when the object owns
  it and is created last otherwise. For the key \<open>__proto__\<close> the assignment runs the
  setter of \<open>Object.prototype\<close>, which ignores a string: nothing is stored.
\<close>

definition set_prop :: "js_object \<Rightarrow> string \<Rightarrow> string \<Rightarrow> js_object" where
  "set_prop obj key v = (if key = ''__proto__'' then obj else AList.update key v obj)"

text \<open>
  The order in which \<open>Object.keys\<close> and the spread \<open>{ ...obj }\<close> go through the own
  properties: array indices (canonical decimal numerals below \<open>2^32 - 1\<close>) in ascending
  order, then every other key in the order of creation.
\<close>

definition is_digit :: "char \<Rightarrow> bool" where
  "is_digit c = (48 \<le> (of_char c :: nat) \<and> (of_char c :: nat) \<le> 57)"

definition index_value :: "string \<Rightarrow> int" where
  "index_value k = foldl (\<lambda>n c. 10 * n + (of_char c - 48)) 0 k"

definition is_array_index :: "string \<Rightarrow> bool" where
  "is_array_index k =
     (k \<noteq> [] \<and> list_all is_digit k \<and> (k = ''0'' \<or> hd k \<noteq> CHR ''0'') \<and>
      length k \<le> 10 \<and> index_value k < 4294967295)"

definition entries :: "js_object \<Rightarrow> (string \<times> string) list" where
  "entries obj =
     sort_key (\<lambda>(k, v). index_value k) (filter (\<lambda>(k, v). is_array_index k) obj)
     @ filter (\<lambda>(k, v). \<not> is_array_index k) obj"

definition spread :: "js_object \<Rightarrow> js_object" where
  "spread obj = entries obj"

text \<open>Truthiness and \<open>a || b\<close>.\<close>

definition truthy_value :: "js_value \<Rightarrow> bool" where
  "truthy_value v = (case v of Undefined \<Rightarrow> False | Str s \<Rightarrow> s \<noteq> [] | Member k \<Rightarrow> True)"

definition or_value :: "js_value \<Rightarrow> js_value \<Rightarrow> js_value" where
  "or_value a b = (if truthy_value a then a else b)"

section \<open>The document tree and the libraries the source calls\<close>

text \<open>
  The tree \<open>cheerio\<close> builds: an element has a tag name, its attributes (\<open>attribs\<close>, in
  the order they were set) and its children.
\<close>

type_synonym attrs = "(string \<times> string) list"

datatype node =
    Element string attrs "node list"
  | Text string
  | Comment string

type_synonym selector = "string \<Rightarrow> attrs \<Rightarrow> bool"

text \<open>What \<open>new URL(input)\<close> and \<open>new URL(input, base)\<close> expose to the source.\<close>

record url_obj =
  href :: string
  protocol :: string
  host :: string

text \<open>
  The settled promise of \<open>axios.get\<close>: a response (\<open>status\<close>, the body, which is
  \<open>data\<close> for the response types \<open>text\<close> and \<open>arraybuffer\<close>,
  \<open>request.res.responseUrl\<close>, the \<open>content-type\<close> header), or the error it rejects
  with (\<open>error.code\<close>, \<open>error.response?.status\<close>, \<open>error.message\<close>).
\<close>

datatype axios_outcome =
    Resolved nat string "string option" "string option"
  | Rejected "string option" "nat option" string

text \<open>The four request configurations of the source (the last two carry the referer).\<close>

datatype request = RobotsRequest | HtmlRequest | CssRequest string | ImageRequest string

text \<open>
  The libraries and the network are not code of the repository; the model takes them as
  parameters. \<open>new_URL\<close> is \<open>None\<close> where the constructor throws. \<open>cheerio_load\<close> parses
  a document, \<open>cheerio_parse\<close> the markup handed to \<open>replaceWith\<close> and \<open>prepend\<close>,
  \<open>cheerio_html\<close> serialises nodes. \<open>base64\<close> is \<open>Buffer.from(data).toString('base64')\<close>.

  \<open>robots_isAllowed robotsUrl body url agent\<close> is
  \<open>RobotsParser(robotsUrl, response.data).isAllowed(url, agent)\<close> for the response whose
  body is \<open>body\<close>: \<open>Normal None\<close> for \<open>undefined\<close>, \<open>Throw\<close> when the call throws (the
  request names no response type, so the data of a JSON body is not a string).

  The last three fields are what the engine and the libraries do with an inherited
  member \<open>Object.prototype[k]\<close> where the source expects a string: \<open>member_text k\<close> is
  its text in a template literal, \<open>member_attr k a\<close> the attributes of an \<open>img\<close> element
  with attributes \<open>a\<close> after \<open>$(elem).attr('src', Object.prototype[k])\<close> (the library
  calls a function it is given), and \<open>member_replace k pat s\<close> is
  \<open>s.replace(new RegExp(escaped, 'g'), Object.prototype[k])\<close> where \<open>escaped\<close> matches
  \<open>pat\<close> literally.
\<close>

record env =
  new_URL :: "string \<Rightarrow> string option \<Rightarrow> url_obj option"
  cheerio_load :: "string \<Rightarrow> node list"
  cheerio_parse :: "string \<Rightarrow> node list"
  cheerio_html :: "node list \<Rightarrow> string"
  axios_get :: "string \<Rightarrow> request \<Rightarrow> axios_outcome"
  robots_isAllowed :: "string \<Rightarrow> string \<Rightarrow> string \<Rightarrow> string \<Rightarrow> bool option completion"
  base64 :: "string \<Rightarrow> string"
  member_text :: "string \<Rightarrow> string"
  member_attr :: "string \<Rightarrow> attrs \<Rightarrow> attrs completion"
  member_replace :: "string \<Rightarrow> string \<Rightarrow> string \<Rightarrow> string completion"

subsection \<open>Selections and their mutations\<close>

text \<open>The elements of a tree in document order, and \<open>$(selector)\<close>.\<close>

fun elements :: "node \<Rightarrow> node list" where
  "elements (Element t a cs) = Element t a cs # concat (map elements cs)"
| "elements (Text s) = []"
| "elements (Comment s) = []"

definition matches :: "selector \<Rightarrow> node \<Rightarrow> bool" where
  "matches p n = (case n of Element t a cs \<Rightarrow> p t a | _ \<Rightarrow> False)"

definition select :: "selector \<Rightarrow> node list \<Rightarrow> node list" where
  "select p doc = filter (matches p) (concat (map elements doc))"

definition node_attrs :: "node \<Rightarrow> attrs" where
  "node_attrs n = (case n of Element t a cs \<Rightarrow> a | _ \<Rightarrow> [])"

definition node_tag :: "node \<Rightarrow> string" where
  "node_tag n = (case n of Element t a cs \<Rightarrow> t | _ \<Rightarrow> [])"

definition node_children :: "node \<Rightarrow> node list" where
  "node_children n = (case n of Element t a cs \<Rightarrow> cs | _ \<Rightarrow> [])"

text \<open>\<open>$(elem).attr(name)\<close>.\<close>

definition attr :: "node \<Rightarrow> string \<Rightarrow> string option" where
  "attr n name = map_of (node_attrs n) name"

text \<open>\<open>$(selector).remove()\<close>: every selected element leaves the tree with its subtree.\<close>

fun remove_sel :: "selector \<Rightarrow> node \<Rightarrow> node list" where
  "remove_sel p (Element t a cs) =
     (if p t a then [] else [Element t a (concat (map (remove_sel p) cs))])"
| "remove_sel p (Text s) = [Text s]"
| "remove_sel p (Comment s) = [Comment s]"

text \<open>
  \<open>$(selector).each((i, elem) => ...)\<close> where the body only sets or removes attributes
  of \<open>elem\<close>: \<open>f\<close> is the body's effect on the attributes.
\<close>

fun each_attr :: "selector \<Rightarrow> (attrs \<Rightarrow> attrs) \<Rightarrow> node \<Rightarrow> node" where
  "each_attr p f (Element t a cs) =
     Element t (if p t a then f a else a) (map (each_attr p f) cs)"
| "each_attr p f (Text s) = Text s"
| "each_attr p f (Comment s) = Comment s"

text \<open>
  The same loop with a body that may throw: the selection is visited in document
  order, and the first exception ends the loop and leaves it.
\<close>

definition each_try :: "selector \<Rightarrow> (attrs \<Rightarrow> attrs completion) \<Rightarrow> node list \<Rightarrow> node list completion" where
  "each_try p f doc =
     (case first_throw (map (\<lambda>elem. f (node_attrs elem)) (select p doc)) of
        Some e \<Rightarrow> Throw e
      | None \<Rightarrow> Normal (map (each_attr p (\<lambda>a. the_normal a (f a))) doc))"

text \<open>
  \<open>$(selector).each((i, elem) => ... $(elem).replaceWith(nodes) ...)\<close>: \<open>r\<close> gives the
  replacement of a selected element, \<open>None\<close> where the body leaves it alone.
\<close>

fun replace_sel :: "(string \<Rightarrow> attrs \<Rightarrow> node list option) \<Rightarrow> node \<Rightarrow> node list" where
  "replace_sel r (Element t a cs) =
     (case r t a of
        Some ns \<Rightarrow> ns
      | None \<Rightarrow> [Element t a (concat (map (replace_sel r) cs))])"
| "replace_sel r (Text s) = [Text s]"
| "replace_sel r (Comment s) = [Comment s]"

text \<open>\<open>$(selector).prepend(nodes)\<close>.\<close>

fun prepend_sel :: "selector \<Rightarrow> node list \<Rightarrow> node \<Rightarrow> node" where
  "prepend_sel p ns (Element t a cs) =
     Element t a ((if p t a then ns else []) @ map (prepend_sel p ns) cs)"
| "prepend_sel p ns (Text s) = Text s"
| "prepend_sel p ns (Comment s) = Comment s"

text \<open>The selectors of the source.\<close>

definition sel_tag :: "string \<Rightarrow> selector" where
  "sel_tag name t a = (t = name)"

definition sel_any :: selector where
  "sel_any t a = True"

definition sel_img_src :: selector where
  "sel_img_src t a = (t = ''img'' \<and> map_of a ''src'' \<noteq> None)"

definition sel_style_background :: selector where
  "sel_style_background t a =
     (case map_of a ''style'' of None \<Rightarrow> False | Some v \<Rightarrow> js_includes v ''background'')"

text \<open>
  \<open>link[rel="stylesheet"]\<close>: the selector engine compares the value of \<open>rel\<close> without
  regard to case (in an HTML document \<open>rel\<close> is one of the attributes it treats so).
\<close>

definition sel_stylesheet_link :: selector where
  "sel_stylesheet_link t a =
     (t = ''link'' \<and>
      (case map_of a ''rel'' of
         None \<Rightarrow> False
       | Some rel \<Rightarrow> length rel = length ''stylesheet'' \<and> toLowerCase rel = ''stylesheet''))"

definition sel_controls :: selector where
  "sel_controls t a = (t = ''input'' \<or> t = ''textarea'' \<or> t = ''button'')"


section \<open>Parser\<close>

definition STRIP_TAGS :: "string list" where
  "STRIP_TAGS = [''script'', ''noscript'', ''iframe'', ''object'', ''embed'']"

definition STRIP_ATTRIBUTES :: "string list" where
  "STRIP_ATTRIBUTES =
     [''onload'', ''onerror'', ''onclick'', ''onmouseover'', ''onmouseout'',
      ''onchange'', ''onsubmit'', ''onfocus'', ''onblur'']"

definition parse :: "env \<Rightarrow> string \<Rightarrow> node list" where
  "parse E html = cheerio_load E html"

text \<open>\<open>resolveUrl\<close>: every exception inside the \<open>try\<close> returns the reference itself.\<close>

definition resolveUrl :: "env \<Rightarrow> string \<Rightarrow> string \<Rightarrow> string" where
  "resolveUrl E url baseUrl =
     (if startsWith url ''//'' then
        (case new_URL E baseUrl None of
           None \<Rightarrow> url
         | Some baseUrlObj \<Rightarrow> protocol baseUrlObj @ url)
      else if startsWith url ''http://'' \<or> startsWith url ''https://'' then url
      else if startsWith url ''data:'' then url
      else (case new_URL E url (Some baseUrl) of
              None \<Rightarrow> url
            | Some u \<Rightarrow> href u))"

text \<open>
  \<open>resolveUrl\<close> on a reference that may be \<open>undefined\<close> (a link without \<open>href\<close>):
  \<open>url.startsWith\<close> throws, the \<open>catch\<close> returns \<open>undefined\<close>.
\<close>

definition resolveUrl_opt :: "env \<Rightarrow> string option \<Rightarrow> string \<Rightarrow> string option" where
  "resolveUrl_opt E url baseUrl =
     (case url of None \<Rightarrow> None | Some u \<Rightarrow> Some (resolveUrl E u baseUrl))"

text \<open>
  An entry of \<open>assets.images\<close> or \<open>assets.stylesheets\<close> (the field \<open>element\<close>, a handle
  into the tree that nothing reads, is left out).
\<close>

record asset_ref =
  original :: string
  absolute :: string
  inlineStyle :: bool
  importRule :: bool

record assets =
  images :: "asset_ref list"
  stylesheets :: "asset_ref list"
  fonts :: "asset_ref list"

definition mk_ref :: "env \<Rightarrow> string \<Rightarrow> string \<Rightarrow> bool \<Rightarrow> bool \<Rightarrow> asset_ref" where
  "mk_ref E baseUrl url inl imp =
     \<lparr>original = url, absolute = resolveUrl E url baseUrl, inlineStyle = inl, importRule = imp\<rparr>"

text \<open>The four loops of \<open>extractAssets\<close>, each the entries it pushes.\<close>

definition img_refs :: "env \<Rightarrow> string \<Rightarrow> node \<Rightarrow> asset_ref list" where
  "img_refs E baseUrl elem =
     (case attr elem ''src'' of
        None \<Rightarrow> []
      | Some src \<Rightarrow>
          if src \<noteq> [] \<and> \<not> startsWith src ''data:''
          then [mk_ref E baseUrl src False False] else [])"

text \<open>
  \<open>match.match(re)[1]\<close> would throw on \<open>null\<close>; a matched text always matches again
  (lemmas \<open>exec1_match_all\<close> and \<open>exec1_import_match\<close> below), so the branch for
  \<open>null\<close> is never taken; it pushes nothing here.
\<close>

definition matched_refs ::
  "env \<Rightarrow> string \<Rightarrow> (string \<Rightarrow> (string \<times> string) option) \<Rightarrow> bool \<Rightarrow> bool \<Rightarrow> string \<Rightarrow> asset_ref list" where
  "matched_refs E baseUrl re inl imp m =
     (case exec1 re m of
        None \<Rightarrow> []
      | Some url \<Rightarrow>
          if \<not> startsWith url ''data:'' then [mk_ref E baseUrl url inl imp] else [])"

definition background_refs :: "env \<Rightarrow> string \<Rightarrow> node \<Rightarrow> asset_ref list" where
  "background_refs E baseUrl elem =
     (case attr elem ''style'' of
        None \<Rightarrow> []
      | Some style \<Rightarrow>
          concat (map (matched_refs E baseUrl url_at True False) (match_all url_at 0 style)))"

definition link_refs :: "env \<Rightarrow> string \<Rightarrow> node \<Rightarrow> asset_ref list" where
  "link_refs E baseUrl elem =
     (case attr elem ''href'' of
        None \<Rightarrow> []
      | Some h \<Rightarrow>
          if h \<noteq> [] \<and> \<not> startsWith h ''data:''
          then [mk_ref E baseUrl h False False] else [])"

definition import_refs :: "env \<Rightarrow> string \<Rightarrow> node \<Rightarrow> asset_ref list" where
  "import_refs E baseUrl elem =
     (let content = cheerio_html E (node_children elem)
      in concat (map (matched_refs E baseUrl plain_at False True) (match_all import_at 0 content)))"

definition extractAssets :: "env \<Rightarrow> node list \<Rightarrow> string \<Rightarrow> assets" where
  "extractAssets E doc baseUrl =
     \<lparr>images =
        concat (map (img_refs E baseUrl) (select sel_img_src doc))
        @ concat (map (background_refs E baseUrl) (select sel_style_background doc)),
      stylesheets =
        concat (map (link_refs E baseUrl) (select sel_stylesheet_link doc))
        @ concat (map (import_refs E baseUrl) (select (sel_tag ''style'') doc)),
      fonts = []\<rparr>"

text \<open>\<open>stripUnsafeContent\<close>, loop by loop.\<close>

definition remove_tag :: "node list \<Rightarrow> string \<Rightarrow> node list" where
  "remove_tag doc name = concat (map (remove_sel (sel_tag name)) doc)"

definition strip_attributes :: "attrs \<Rightarrow> attrs" where
  "strip_attributes a = foldl (\<lambda>acc name. AList.delete name acc) a STRIP_ATTRIBUTES"

definition disable_form :: "attrs \<Rightarrow> attrs" where
  "disable_form a = AList.delete ''action'' (AList.update ''onsubmit'' ''return false;'' a)"

definition disable_control :: "attrs \<Rightarrow> attrs" where
  "disable_control a = AList.update ''disabled'' ''disabled'' a"

definition stripUnsafeContent :: "node list \<Rightarrow> node list" where
  "stripUnsafeContent doc =
     map (each_attr sel_controls disable_control)
       (map (each_attr (sel_tag ''form'') disable_form)
          (map (each_attr sel_any strip_attributes)
             (foldl remove_tag doc STRIP_TAGS)))"

text \<open>
  \<open>rewriteAssets\<close>, loop by loop. \<open>baseUrl\<close> is \<open>None\<close> when the caller passes none. The
  body of the first loop hands \<open>assetMap[src]\<close> to the library, which throws for some
  inherited members. The second loop reads the values of the keys \<open>Object.keys\<close> lists,
  which are the object's own.
\<close>

definition rewrite_img :: "env \<Rightarrow> js_object \<Rightarrow> attrs \<Rightarrow> attrs completion" where
  "rewrite_img E assetMap a =
     (case map_of a ''src'' of
        None \<Rightarrow> Normal a
      | Some src \<Rightarrow>
          if truthy_value (get_prop assetMap src) then
            (case get_prop assetMap src of
               Str v \<Rightarrow> Normal (AList.update ''src'' v a)
             | Member k \<Rightarrow> member_attr E k a
             | Undefined \<Rightarrow> Normal a)
          else Normal a)"

definition rewrite_style :: "js_object \<Rightarrow> attrs \<Rightarrow> attrs" where
  "rewrite_style assetMap a =
     (case map_of a ''style'' of
        None \<Rightarrow> a
      | Some style \<Rightarrow>
          AList.update ''style''
            (foldl (\<lambda>st (originalUrl, v). replace_all originalUrl v st)
               style (entries assetMap))
            a)"

definition styleTag :: "string \<Rightarrow> string" where
  \<open>styleTag css = ''<style type="text/css">'' @ css @ ''</style>''\<close>

text \<open>The text of a truthy \<open>css\<close> in the template literal of \<open>styleTag\<close>.\<close>

definition css_text :: "env \<Rightarrow> js_value \<Rightarrow> string" where
  "css_text E css =
     (case css of Str s \<Rightarrow> s | Member k \<Rightarrow> member_text E k | Undefined \<Rightarrow> ''undefined'')"

definition rewrite_link :: "env \<Rightarrow> js_object \<Rightarrow> string option \<Rightarrow> string \<Rightarrow> attrs \<Rightarrow> node list option" where
  "rewrite_link E assetMap baseUrl t a =
     (if sel_stylesheet_link t a then
        (let href = map_of a ''href'';
             css = get_prop assetMap (prop_key href);
             css = (case baseUrl of
                      None \<Rightarrow> css
                    | Some b \<Rightarrow>
                        if \<not> truthy_value css \<and> b \<noteq> []
                        then get_prop assetMap (prop_key (resolveUrl_opt E href b))
                        else css)
         in if truthy_value css then Some (cheerio_parse E (styleTag (css_text E css)))
            else None)
      else None)"

definition rewriteAssets :: "env \<Rightarrow> node list \<Rightarrow> js_object \<Rightarrow> string option \<Rightarrow> node list completion" where
  "rewriteAssets E doc assetMap baseUrl =
     (case each_try sel_img_src (rewrite_img E assetMap) doc of
        Throw e \<Rightarrow> Throw e
      | Normal doc1 \<Rightarrow>
          Normal (concat (map (replace_sel (rewrite_link E assetMap baseUrl))
                    (map (each_attr sel_style_background (rewrite_style assetMap)) doc1))))"

text \<open>
  \<open>processedCSS.replace(new RegExp(escaped, 'g'), v)\<close> for a truthy \<open>v = assetMap[key]\<close>.
\<close>

definition replace_value :: "env \<Rightarrow> string \<Rightarrow> js_value \<Rightarrow> string \<Rightarrow> string completion" where
  "replace_value E pat v s =
     (case v of
        Str r \<Rightarrow> Normal (replace_all pat r s)
      | Member k \<Rightarrow> member_replace E k pat s
      | Undefined \<Rightarrow> Normal (replace_all pat ''undefined'' s))"

definition processCSS_match :: "env \<Rightarrow> string \<Rightarrow> js_object \<Rightarrow> string \<Rightarrow> string \<Rightarrow> string completion" where
  "processCSS_match E baseUrl assetMap processedCSS m =
     (case exec1 url_at m of
        None \<Rightarrow> Normal processedCSS
      | Some url \<Rightarrow>
          if \<not> startsWith url ''data:'' then
            (let absoluteUrl = resolveUrl E url baseUrl
             in if truthy_value (get_prop assetMap absoluteUrl)
                then replace_value E url (get_prop assetMap absoluteUrl) processedCSS
                else if truthy_value (get_prop assetMap url)
                then replace_value E url (get_prop assetMap url) processedCSS
                else Normal processedCSS)
          else Normal processedCSS)"

definition processCSS :: "env \<Rightarrow> string \<Rightarrow> string \<Rightarrow> js_object \<Rightarrow> string completion" where
  "processCSS E css baseUrl assetMap =
     fold_try (processCSS_match E baseUrl assetMap) css (match_all url_at 0 css)"

text \<open>
  The banner of \<open>addReplicaBanner\<close>. Its two characters outside ASCII (an anchor and a
  bullet) are written as their UTF-8 bytes; the text is only handed to the parser.
\<close>

definition anchor :: string where
  "anchor = [CHR 0xE2, CHR 0x9A, CHR 0x93]"

definition bullet :: string where
  "bullet = [CHR 0xE2, CHR 0x80, CHR 0xA2]"

definition banner :: string where
  \<open>banner = concat (map (\<lambda>l. l @ [CHR 0x0A])
     ([] #
      [''      <div style="'',
      ''        position: fixed;'',
      ''        top: 0;'',
      ''        left: 0;'',
      ''        right: 0;'',
      ''        background: linear-gradient(135deg, #1a1a2e 0%, #16213e 100%);'',
      ''        color: #f4a261;'',
      ''        padding: 8px 16px;'',
      ''        text-align: center;'',
      ''        font-family: '' @ [CHR 0x27] @ ''Courier New'' @ [CHR 0x27] @ '', monospace;'',
      ''        font-size: 12px;'',
      ''        border-bottom: 2px solid #f4a261;'',
      ''        z-index: 999999;'',
      ''        box-shadow: 0 2px 8px rgba(0,0,0,0.3);'',
      ''      ">'',
      ''        '' @ anchor @ '' REPLICATED SITE '' @ bullet
        @ '' Original interactivity disabled '' @ bullet
        @ '' For preview purposes only '' @ anchor,
      ''      </div>'',
      ''      <div style="height: 36px;"></div>''])) @ ''    ''\<close>

definition addReplicaBanner :: "env \<Rightarrow> node list \<Rightarrow> node list" where
  "addReplicaBanner E doc = map (prepend_sel (sel_tag ''body'') (cheerio_parse E banner)) doc"

definition getHTML :: "env \<Rightarrow> node list \<Rightarrow> string" where
  "getHTML E doc = cheerio_html E doc"


section \<open>Fetcher\<close>

definition USER_AGENT :: string where
  "USER_AGENT =
     ''Mozilla/5.0 (compatible; WebsitePlunder/1.0; +https://github.com/yourorg/website-plunder)''"

text \<open>
  \<open>checkRobots\<close>: the value the promise resolves to (\<open>None\<close> is \<open>undefined\<close>). The
  request resolves for every status below 500 (\<open>validateStatus\<close>); whatever throws
  inside the \<open>try\<close> (the URL constructor, the request, the robots library) gives
  \<open>true\<close>.
\<close>

definition checkRobots :: "env \<Rightarrow> string \<Rightarrow> bool option" where
  "checkRobots E url =
     (case new_URL E url None of
        None \<Rightarrow> Some True
      | Some urlObj \<Rightarrow>
          (let robotsUrl = protocol urlObj @ ''//'' @ host urlObj @ ''/robots.txt''
           in case axios_get E robotsUrl RobotsRequest of
                Resolved status body responseUrl contentType \<Rightarrow>
                  if status = 200 then
                    (case robots_isAllowed E robotsUrl body url USER_AGENT of
                       Normal allowed \<Rightarrow> allowed
                     | Throw e \<Rightarrow> Some True)
                  else Some True
              | Rejected code status message \<Rightarrow> Some True))"

record page =
  html :: string
  finalUrl :: string
  contentType :: "string option"

text \<open>The \<open>catch\<close> of \<open>fetchHTML\<close>: the message of the error it throws.\<close>

definition fetchHTML_error :: "string option \<Rightarrow> nat option \<Rightarrow> string \<Rightarrow> string" where
  "fetchHTML_error code status message =
     (if code = Some ''ECONNABORTED'' then ''Request timeout - site took too long to respond''
      else if status = Some 404 then ''Page not found (404)''
      else if status = Some 403 then ''Access forbidden (403)''
      else ''Failed to fetch HTML: '' @ message)"

text \<open>
  \<open>fetchHTML\<close>: \<open>Inl\<close> is the message of the error thrown. The error for a page that
  robots.txt blocks is thrown inside the same \<open>try\<close>, so the \<open>catch\<close> rewraps it.
\<close>

definition fetchHTML :: "env \<Rightarrow> string \<Rightarrow> string + page" where
  "fetchHTML E url =
     (if checkRobots E url \<noteq> Some True then
        Inl (fetchHTML_error None None ''Blocked by robots.txt'')
      else
        (case axios_get E url HtmlRequest of
           Resolved status d responseUrl ct \<Rightarrow>
             Inr \<lparr>html = d,
                  finalUrl = (case responseUrl of
                                None \<Rightarrow> url
                              | Some r \<Rightarrow> if r \<noteq> [] then r else url),
                  contentType = ct\<rparr>
         | Rejected code status message \<Rightarrow> Inl (fetchHTML_error code status message)))"

definition fetchCSS :: "env \<Rightarrow> string \<Rightarrow> string \<Rightarrow> string option" where
  "fetchCSS E url refererUrl =
     (case axios_get E url (CssRequest refererUrl) of
        Resolved status d responseUrl ct \<Rightarrow> Some d
      | Rejected code status message \<Rightarrow> None)"

definition fetchImage :: "env \<Rightarrow> string \<Rightarrow> string \<Rightarrow> string option" where
  "fetchImage E url refererUrl =
     (case axios_get E url (ImageRequest refererUrl) of
        Resolved status d responseUrl ct \<Rightarrow>
          (let contentType = (case ct of
                                None \<Rightarrow> ''image/png''
                              | Some c \<Rightarrow> if c \<noteq> [] then c else ''image/png'')
           in Some (''data:'' @ contentType @ '';base64,'' @ base64 E d))
      | Rejected code status message \<Rightarrow> None)"


section \<open>Storage\<close>

text \<open>
  \<open>store\<close> is the \<open>Map\<close> from session id to that session's \<open>Map\<close> (its entries in
  insertion order; a \<open>Map\<close> keeps every key). \<open>cleared\<close> is not a field of the source:
  it lists the session ids \<open>clearSession\<close> was called with, so that the number of calls
  can be stated.
\<close>

record storage =
  store :: "string \<Rightarrow> (string \<times> string) list option"
  cleared :: "string list"

definition empty_storage :: storage where
  "empty_storage = \<lparr>store = (\<lambda>sessionId. None), cleared = []\<rparr>"

definition storeAsset :: "storage \<Rightarrow> string \<Rightarrow> string \<Rightarrow> string \<Rightarrow> storage" where
  "storeAsset st sessionId originalUrl dataUrl =
     (let sessionStore = (case store st sessionId of None \<Rightarrow> [] | Some m \<Rightarrow> m)
      in st\<lparr>store := (store st)(sessionId \<mapsto> AList.update originalUrl dataUrl sessionStore)\<rparr>)"

text \<open>\<open>getAssetMap\<close> copies the session's \<open>Map\<close> into a plain object, key by key.\<close>

definition getAssetMap :: "storage \<Rightarrow> string \<Rightarrow> js_object" where
  "getAssetMap st sessionId =
     (case store st sessionId of
        None \<Rightarrow> []
      | Some sessionStore \<Rightarrow>
          foldl (\<lambda>assetMap (originalUrl, dataUrl). set_prop assetMap originalUrl dataUrl)
            [] sessionStore)"

definition clearSession :: "storage \<Rightarrow> string \<Rightarrow> storage" where
  "clearSession st sessionId =
     \<lparr>store = (if store st sessionId \<noteq> None then (store st)(sessionId := None) else store st),
      cleared = cleared st @ [sessionId]\<rparr>"

section \<open>The route \<open>replicate\<close>\<close>

text \<open>
  The handler runs against the storage and returns the response with the storage it
  leaves. The session id (\<open>generateSessionId\<close>: clock and random number) is a
  parameter. The fetches of one \<open>Promise.all\<close> are run in list order. A success body
  carries \<open>html\<close>, \<open>stats.images\<close>, \<open>stats.totalImages\<close> and \<open>stats.stylesheets\<close>; a
  failure body carries \<open>error\<close>.
\<close>

datatype body =
    Success string nat nat nat
  | Failure string

record response =
  status :: nat
  json :: body

definition CONCURRENCY :: nat where
  "CONCURRENCY = 5"

text \<open>\<open>if (data) { storeAsset(original); storeAsset(absolute) }\<close>.\<close>

definition store_fetched :: "storage \<Rightarrow> string \<Rightarrow> asset_ref \<Rightarrow> string option \<Rightarrow> storage" where
  "store_fetched st sessionId r fetched =
     (case fetched of
        None \<Rightarrow> st
      | Some d \<Rightarrow>
          if d \<noteq> []
          then storeAsset (storeAsset st sessionId (original r) d) sessionId (absolute r) d
          else st)"

definition fetch_stylesheets :: "env \<Rightarrow> string \<Rightarrow> string \<Rightarrow> asset_ref list \<Rightarrow> storage \<Rightarrow> storage" where
  "fetch_stylesheets E sessionId pageUrl sheets st =
     foldl (\<lambda>s sheet. store_fetched s sessionId sheet (fetchCSS E (absolute sheet) pageUrl))
       st sheets"

text \<open>One batch of images: the storage after it and the batch's \<open>success\<close> flags.\<close>

definition fetch_batch ::
  "env \<Rightarrow> string \<Rightarrow> string \<Rightarrow> asset_ref list \<Rightarrow> storage \<Rightarrow> storage \<times> bool list" where
  "fetch_batch E sessionId pageUrl batch st =
     foldl (\<lambda>(s, results) img.
              let dataUrl = fetchImage E (absolute img) pageUrl
              in (store_fetched s sessionId img dataUrl, results @ [truthy dataUrl]))
       (st, []) batch"

text \<open>The loop \<open>for (let i = 0; i < assets.images.length; i += CONCURRENCY)\<close>.\<close>

function fetch_images ::
  "env \<Rightarrow> string \<Rightarrow> string \<Rightarrow> asset_ref list \<Rightarrow> nat \<Rightarrow> storage \<times> bool list \<Rightarrow> storage \<times> bool list" where
  "fetch_images E sessionId pageUrl imgs i (st, imageResults) =
     (if i < length imgs then
        (let batch = take CONCURRENCY (drop i imgs);
             (st', batchResults) = fetch_batch E sessionId pageUrl batch st
         in fetch_images E sessionId pageUrl imgs (i + CONCURRENCY)
              (st', imageResults @ batchResults))
      else (st, imageResults))"
  by pat_completeness auto
termination
  by (relation "measure (\<lambda>(E, sessionId, pageUrl, imgs, i, acc). length imgs - i)")
     (auto simp: CONCURRENCY_def)

declare fetch_images.simps [simp del]

text \<open>
  Steps 2 to 4 of the \<open>try\<close> block: the parsed document, the extracted assets, the
  image results and the storage after the fetches. Nothing here throws: a fetch that
  fails yields \<open>null\<close>.
\<close>

record fetched =
  document :: "node list"
  found :: assets
  imageResults :: "bool list"
  filled :: storage

definition fetch_assets :: "env \<Rightarrow> string \<Rightarrow> page \<Rightarrow> storage \<Rightarrow> fetched" where
  "fetch_assets E sessionId pg st =
     (let doc = parse E (html pg);
          assets = extractAssets E doc (finalUrl pg);
          st1 = fetch_stylesheets E sessionId (finalUrl pg) (stylesheets assets) st;
          (st2, results) = fetch_images E sessionId (finalUrl pg) (images assets) 0 (st1, [])
      in \<lparr>document = doc, found = assets, imageResults = results, filled = st2\<rparr>)"

text \<open>
  The body of \<open>assets.stylesheets.forEach\<close> in step 5: \<open>stored_css\<close> is
  \<open>assetMap[sheet.original] || assetMap[sheet.absolute]\<close>, \<open>process_stored\<close> the
  text after the substitution of its \<open>url()\<close> references. The map is written only
  for a \<open>css\<close> that is truthy and a string.
\<close>

definition stored_css :: "js_object \<Rightarrow> asset_ref \<Rightarrow> js_value" where
  "stored_css assetMap sheet =
     or_value (get_prop assetMap (original sheet)) (get_prop assetMap (absolute sheet))"

definition process_stored :: "env \<Rightarrow> string \<Rightarrow> js_object \<Rightarrow> string \<Rightarrow> string completion" where
  "process_stored E pageUrl assetMap css =
     (if js_includes css ''url('' then processCSS E css pageUrl assetMap else Normal css)"

definition process_sheet ::
  "env \<Rightarrow> string \<Rightarrow> js_object \<Rightarrow> js_object \<Rightarrow> asset_ref \<Rightarrow> js_object completion" where
  "process_sheet E pageUrl assetMap processedAssetMap sheet =
     (case stored_css assetMap sheet of
        Str css \<Rightarrow>
          if css \<noteq> [] then
            (case process_stored E pageUrl assetMap css of
               Throw e \<Rightarrow> Throw e
             | Normal processedCSS \<Rightarrow>
                 Normal (set_prop (set_prop processedAssetMap (original sheet) processedCSS)
                           (absolute sheet) processedCSS))
          else Normal processedAssetMap
      | _ \<Rightarrow> Normal processedAssetMap)"

text \<open>
  Steps 5 and 6: the processed asset map, and the document sanitized, substituted (the
  caller passes no base URL) and annotated. An exception ends the \<open>try\<close> block.
\<close>

record rewritten =
  processed :: js_object
  replica :: "node list"

definition rewrite_document :: "env \<Rightarrow> node list \<Rightarrow> js_object \<Rightarrow> node list completion" where
  "rewrite_document E doc processedAssetMap =
     (case rewriteAssets E (stripUnsafeContent doc) processedAssetMap None of
        Throw e \<Rightarrow> Throw e
      | Normal doc' \<Rightarrow> Normal (addReplicaBanner E doc'))"

definition rewrite_job :: "env \<Rightarrow> string \<Rightarrow> page \<Rightarrow> fetched \<Rightarrow> rewritten completion" where
  "rewrite_job E sessionId pg f =
     (let stored = getAssetMap (filled f) sessionId
      in case fold_try (process_sheet E (finalUrl pg) stored) (spread stored)
                (stylesheets (found f)) of
           Throw e \<Rightarrow> Throw e
         | Normal processedAssetMap \<Rightarrow>
             (case rewrite_document E (document f) processedAssetMap of
                Throw e \<Rightarrow> Throw e
              | Normal doc' \<Rightarrow> Normal \<lparr>processed = processedAssetMap, replica = doc'\<rparr>))"

definition failure :: "string \<Rightarrow> response" where
  "failure message =
     \<lparr>status = 500,
      json = Failure (if message \<noteq> [] then message else ''Failed to replicate website'')\<rparr>"

definition replicate_route :: "env \<Rightarrow> string \<Rightarrow> string option \<Rightarrow> storage \<Rightarrow> response \<times> storage" where
  "replicate_route E sessionId url st =
     (case url of
        None \<Rightarrow> (\<lparr>status = 400, json = Failure ''URL is required''\<rparr>, st)
      | Some u \<Rightarrow>
          if u = [] then (\<lparr>status = 400, json = Failure ''URL is required''\<rparr>, st)
          else
            (case new_URL E u None of
               None \<Rightarrow> (\<lparr>status = 400, json = Failure ''Invalid URL format''\<rparr>, st)
             | Some parsed \<Rightarrow>
                 (case fetchHTML E u of
                    Inl message \<Rightarrow> (failure message, clearSession st sessionId)
                  | Inr pg \<Rightarrow>
                      (let f = fetch_assets E sessionId pg st;
                           successfulImages = length (filter (\<lambda>success. success) (imageResults f))
                       in case rewrite_job E sessionId pg f of
                            Throw message \<Rightarrow> (failure message, clearSession (filled f) sessionId)
                          | Normal r \<Rightarrow>
                              (\<lparr>status = 200,
                                json = Success (getHTML E (replica r)) successfulImages
                                         (length (images (found f)))
                                         (length (stylesheets (found f)))\<rparr>,
                               clearSession (filled f) sessionId)))))"

section \<open>Notions the statements use\<close>

text \<open>All elements of a document, in document order.\<close>

definition all_elements :: "node list \<Rightarrow> node list" where
  "all_elements doc = concat (map elements doc)"

text \<open>A property of the tag and attributes of every element of a tree.\<close>

fun every :: "(string \<Rightarrow> attrs \<Rightarrow> bool) \<Rightarrow> node \<Rightarrow> bool" where
  "every Q (Element t a cs) = (Q t a \<and> (\<forall>c \<in> set cs. every Q c))"
| "every Q (Text s) = True"
| "every Q (Comment s) = True"

text \<open>A tree with the attributes of every element erased: what is left is its shape.\<close>

definition erase :: "node \<Rightarrow> node" where
  "erase n = each_attr sel_any (\<lambda>a. []) n"

definition denylisted :: selector where
  "denylisted t a = (t \<in> set STRIP_TAGS)"

text \<open>
  An element is inert when its tag is not on the tag denylist, it has no action
  attribute if it is a form, and the only attribute of the event-handler denylist it
  may carry is the \<open>onsubmit="return false;"\<close> that sanitization puts on a form.
\<close>

definition inert :: "string \<Rightarrow> attrs \<Rightarrow> bool" where
  "inert t a =
     (t \<notin> set STRIP_TAGS \<and>
      (\<forall>n \<in> set STRIP_ATTRIBUTES. map_of a n \<noteq> None \<longrightarrow>
         n = ''onsubmit'' \<and> t = ''form'' \<and> map_of a n = Some ''return false;'') \<and>
      (t = ''form'' \<longrightarrow> map_of a ''action'' = None))"

definition disabled :: "string \<Rightarrow> attrs \<Rightarrow> bool" where
  "disabled t a =
     ((t = ''form'' \<longrightarrow>
         map_of a ''onsubmit'' = Some ''return false;'' \<and> map_of a ''action'' = None) \<and>
      (t = ''input'' \<or> t = ''textarea'' \<or> t = ''button'' \<longrightarrow>
         map_of a ''disabled'' = Some ''disabled''))"


text \<open>The references \<open>resolveUrl\<close> takes as absolute (its second test).\<close>

definition absolute_url :: "string \<Rightarrow> bool" where
  "absolute_url u = (startsWith u ''http://'' \<or> startsWith u ''https://'')"

text \<open>
  A history of calls on the storage, and what it leaves under a session id \<open>b\<close>: the
  pairs stored under \<open>b\<close> since \<open>b\<close> was last cleared, a later value replacing an
  earlier one for the same key.
\<close>

datatype storage_op = StoreAsset string string string | ClearSession string

fun apply_op :: "storage \<Rightarrow> storage_op \<Rightarrow> storage" where
  "apply_op st (StoreAsset sessionId originalUrl dataUrl) =
     storeAsset st sessionId originalUrl dataUrl"
| "apply_op st (ClearSession sessionId) = clearSession st sessionId"

fun stored_step ::
  "string \<Rightarrow> (string \<Rightarrow> string option) \<Rightarrow> storage_op \<Rightarrow> (string \<Rightarrow> string option)" where
  "stored_step b m (StoreAsset sessionId k v) = (if sessionId = b then m(k \<mapsto> v) else m)"
| "stored_step b m (ClearSession sessionId) = (if sessionId = b then Map.empty else m)"

text \<open>
  The entries of a session as a map, and the invariant of its inner \<open>Map\<close>: a key
  occurs once.
\<close>

definition session_map :: "storage \<Rightarrow> string \<Rightarrow> (string \<Rightarrow> string option)" where
  "session_map st b = (case store st b of None \<Rightarrow> Map.empty | Some m \<Rightarrow> map_of m)"

definition tidy :: "storage \<Rightarrow> string \<Rightarrow> bool" where
  "tidy st b = (case store st b of None \<Rightarrow> True | Some m \<Rightarrow> distinct (map fst m))"

text \<open>
  What an element adds to a list read off a document in document order; \<open>img_srcs\<close> is
  the \<open>src\<close> texts of the document's \<open>img[src]\<close> elements, \<open>tags_attrs\<close> the tag and
  attributes of every element, \<open>all_nodes\<close> every node with its subtree.
\<close>

definition collect :: "(string \<Rightarrow> attrs \<Rightarrow> 'b list) \<Rightarrow> node list \<Rightarrow> 'b list" where
  "collect g doc = concat (map (\<lambda>e. g (node_tag e) (node_attrs e)) (all_elements doc))"



definition tags_attrs :: "node list \<Rightarrow> (string \<times> attrs) list" where
  "tags_attrs doc = collect (\<lambda>t a. [(t, a)]) doc"

fun nodes :: "node \<Rightarrow> node list" where
  "nodes (Element t a cs) = Element t a cs # concat (map nodes cs)"
| "nodes (Text s) = [Text s]"
| "nodes (Comment s) = [Comment s]"














section \<open>A small environment\<close>

text \<open>
  The concrete instances below run in this environment. Every URL parses; a reference
  with a scheme of its own resolves to itself with the scheme in lower case, any other
  to a path under \<open>http://x.test/\<close>.
\<close>

definition sample_new_URL :: "string \<Rightarrow> string option \<Rightarrow> url_obj option" where
  "sample_new_URL input base =
     (case base of
        None \<Rightarrow> Some \<lparr>href = input, protocol = ''http:'', host = ''x.test''\<rparr>
      | Some b \<Rightarrow>
          if toLowerCase (take 5 input) = ''data:''
          then Some \<lparr>href = ''data:'' @ drop 5 input, protocol = ''data:'', host = []\<rparr>
          else Some \<lparr>href = ''http://x.test/'' @ input, protocol = ''http:'', host = ''x.test''\<rparr>)"

text \<open>
  The parser reads the markup \<open><style type="text/css">...</style>\<close> as a style element
  whose text ends at the first \<open></style>\<close>, and a \<open><script>...</script>\<close> that follows it
  as a script element; any other markup (the banner) it answers with one \<open>div\<close>. The
  serialiser writes a tree as tags and text.
\<close>

fun before_sub :: "string \<Rightarrow> string \<Rightarrow> string" where
  "before_sub sub [] = []"
| "before_sub sub (c # cs) = (if startsWith (c # cs) sub then [] else c # before_sub sub cs)"

fun after_sub :: "string \<Rightarrow> string \<Rightarrow> string" where
  "after_sub sub [] = []"
| "after_sub sub (c # cs) =
     (if startsWith (c # cs) sub then drop (length sub) (c # cs) else after_sub sub cs)"

definition sample_parse :: "string \<Rightarrow> node list" where
  \<open>sample_parse markup =
     (if startsWith markup ''<style type="text/css">'' then
        (let content = drop 23 markup;
             rest = after_sub ''</style>'' content
         in Element ''style'' [(''type'', ''text/css'')] [Text (before_sub ''</style>'' content)]
            # (if startsWith rest ''<script>''
               then [Element ''script'' [] [Text (before_sub ''</script>'' (drop 8 rest))]]
               else []))
      else [Element ''div'' [(''style'', ''position: fixed;'')] [Text ''REPLICATED SITE'']])\<close>

fun sample_html :: "node \<Rightarrow> string" where
  \<open>sample_html (Element t a cs) =
     ''<'' @ t @ concat (map (\<lambda>(k, v). '' '' @ k @ ''="'' @ v @ ''"'') a) @ ''>''
     @ concat (map sample_html cs) @ ''</'' @ t @ ''>''\<close>
| "sample_html (Text s) = s"
| "sample_html (Comment s) = ''<!--'' @ s @ ''-->''"

text \<open>
  A page with a stylesheet link, a script, event handlers, three images (one of them
  inline data) and a form.
\<close>

definition sample_document :: "node list" where
  "sample_document =
     [Element ''html'' []
        [Element ''head'' []
           [Element ''link'' [(''rel'', ''stylesheet''), (''href'', ''a.css'')] [],
            Element ''script'' [(''src'', ''t.js'')] []],
         Element ''body'' [(''onload'', ''init()'')]
           [Element ''img'' [(''src'', ''a.png''), (''onclick'', ''zoom()'')] [],
            Element ''img'' [(''src'', ''bad'')] [],
            Element ''img'' [(''src'', ''data:image/gif;base64,R0lG'')] [],
            Element ''form'' [(''action'', ''/post''), (''onsubmit'', ''check()'')]
              [Element ''input'' [(''name'', ''q'')] [],
               Element ''button'' [] [Text ''Go'']]]]]"

text \<open>
  The network: no robots.txt; the stylesheet \<open>empty.css\<close> is empty, \<open>evil.css\<close> closes
  the style element and opens a script, every other stylesheet is
  \<open>body{background:url(a.png)}\<close>;
  an image arrives unless its URL is \<open>http://x.test/bad\<close>. In the second network no
  image arrives, in the third only the image requested as
  \<open>data:image/gif;base64,R0lG\<close>.
\<close>

definition sample_get :: "string \<Rightarrow> request \<Rightarrow> axios_outcome" where
  "sample_get url req =
     (case req of
        RobotsRequest \<Rightarrow> Resolved 404 ''Not Found'' None (Some ''text/plain'')
      | HtmlRequest \<Rightarrow> Resolved 200 ''<html>'' None (Some ''text/html'')
      | CssRequest referer \<Rightarrow>
          if url = ''http://x.test/empty.css'' then Resolved 200 [] None (Some ''text/css'')
          else if url = ''http://x.test/evil.css''
          then Resolved 200 ''</style><script>alert(1)</script>'' None (Some ''text/css'')
          else Resolved 200 ''body{background:url(a.png)}'' None (Some ''text/css'')
      | ImageRequest referer \<Rightarrow>
          if url = ''http://x.test/bad''
          then Rejected (Some ''ECONNABORTED'') None ''timeout of 15000ms exceeded''
          else Resolved 200 ''PNG'' None (Some ''image/png''))"

definition no_image_get :: "string \<Rightarrow> request \<Rightarrow> axios_outcome" where
  "no_image_get url req =
     (case req of
        ImageRequest referer \<Rightarrow>
          Rejected (Some ''ECONNABORTED'') None ''timeout of 15000ms exceeded''
      | _ \<Rightarrow> sample_get url req)"

definition data_image_get :: "string \<Rightarrow> request \<Rightarrow> axios_outcome" where
  "data_image_get url req =
     (case req of
        ImageRequest referer \<Rightarrow>
          if url = ''data:image/gif;base64,R0lG''
          then Resolved 200 ''GIF'' None (Some ''image/gif'')
          else Rejected (Some ''ECONNABORTED'') None ''timeout of 15000ms exceeded''
      | _ \<Rightarrow> sample_get url req)"

text \<open>
  The robots library: it throws on data that is not a string (a JSON body), and
  disallows the URL when the text has the rule \<open>Disallow: /\<close>.
\<close>

definition sample_robots :: "string \<Rightarrow> string \<Rightarrow> string \<Rightarrow> string \<Rightarrow> bool option completion" where
  "sample_robots robotsUrl body url agent =
     (if startsWith body ''{'' then Throw ''contents.split is not a function''
      else Normal (Some (\<not> js_includes body ''Disallow: /'')))"

text \<open>
  The inherited members as the engine and the libraries treat them: \<open>__defineGetter__\<close>
  and \<open>__defineSetter__\<close> throw when the library calls them, the other functions return
  a value the library writes as text; as a replacer most of them throw for want of a
  receiver.
\<close>

definition sample_member_text :: "string \<Rightarrow> string" where
  "sample_member_text k =
     (if k = ''__proto__'' then ''[object Object]''
      else ''function '' @ (if k = ''constructor'' then ''Object'' else k) @ ''() { [native code] }'')"

definition sample_member_attr :: "string \<Rightarrow> attrs \<Rightarrow> attrs completion" where
  "sample_member_attr k a =
     (if k = ''__defineGetter__'' \<or> k = ''__defineSetter__''
      then Throw (''Object.prototype.'' @ k @ '': Expecting function'')
      else Normal (AList.update ''src''
             (if k \<in> set [''toString'', ''valueOf'', ''toLocaleString'', ''__proto__'']
              then ''[object Object]''
              else if k = ''constructor'' then ''0''
              else if k = ''__lookupGetter__'' \<or> k = ''__lookupSetter__'' then ''undefined''
              else ''false'') a))"

definition sample_member_replace :: "string \<Rightarrow> string \<Rightarrow> string \<Rightarrow> string completion" where
  "sample_member_replace k pat s =
     (if k = ''toString'' then Normal (replace_all pat ''[object Undefined]'' s)
      else if k = ''__proto__'' then Normal (replace_all pat ''[object Object]'' s)
      else if k = ''isPrototypeOf'' then Normal (replace_all pat ''false'' s)
      else if k = ''constructor'' then Normal s
      else Throw ''Cannot convert undefined or null to object'')"

text \<open>The environment of a page (the document the parser reads) and a network.\<close>

definition env_of :: "node list \<Rightarrow> (string \<Rightarrow> request \<Rightarrow> axios_outcome) \<Rightarrow> env" where
  "env_of doc get =
     \<lparr>new_URL = sample_new_URL,
      cheerio_load = (\<lambda>html. doc),
      cheerio_parse = sample_parse,
      cheerio_html = (\<lambda>nodes. concat (map sample_html nodes)),
      axios_get = get,
      robots_isAllowed = sample_robots,
      base64 = (\<lambda>d. ''UE5H''),
      member_text = sample_member_text,
      member_attr = sample_member_attr,
      member_replace = sample_member_replace\<rparr>"

definition sample_env :: env where
  "sample_env = env_of sample_document sample_get"

definition sample_page :: page where
  "sample_page = \<lparr>html = ''<html>'', finalUrl = ''http://x.test/'', contentType = Some ''text/html''\<rparr>"

text \<open>The sample environment with the request for robots.txt settled as given.\<close>

definition with_robots :: "axios_outcome \<Rightarrow> env" where
  "with_robots outcome =
     env_of sample_document
       (\<lambda>url req. case req of RobotsRequest \<Rightarrow> outcome | _ \<Rightarrow> sample_get url req)"

text \<open>
  A page with a script, an \<open>onclick\<close>, a form with an action, and a link to the
  stylesheet \<open>evil.css\<close>.
\<close>

definition evil_document :: "node list" where
  "evil_document =
     [Element ''html'' []
        [Element ''head'' []
           [Element ''link'' [(''rel'', ''stylesheet''), (''href'', ''evil.css'')] [],
            Element ''script'' [(''src'', ''t.js'')] []],
         Element ''body'' []
           [Element ''p'' [(''onclick'', ''go()'')] [Text ''Hello''],
            Element ''form'' [(''action'', ''/post'')] []]]]"





section \<open>URL resolution\<close>

lemma startsWith_hd: "startsWith s (c # p) \<Longrightarrow> \<exists>cs. s = c # cs"
  by (cases s) (auto simp: startsWith_def)

lemma absolute_not_protocol_relative: "absolute_url u \<Longrightarrow> \<not> startsWith u ''//''"
  unfolding absolute_url_def by (auto dest!: startsWith_hd)

lemma data_not_protocol_relative: "startsWith u ''data:'' \<Longrightarrow> \<not> startsWith u ''//''"
  by (auto dest!: startsWith_hd)

lemma resolveUrl_data: "startsWith u ''data:'' \<Longrightarrow> resolveUrl E u b = u"
  using data_not_protocol_relative by (simp add: resolveUrl_def)

text \<open>
  Claim C10. Resolution is idempotent on absolute inputs: a reference that already has
  the scheme \<open>http\<close> or \<open>https\<close> is returned as it is, for every base URL and whatever
  the URL parser does, so resolving the result again changes nothing.
\<close>

theorem resolveUrl_idempotent_on_absolute:
  assumes "absolute_url u"
  shows "resolveUrl E u b = u \<and> resolveUrl E (resolveUrl E u b) b = resolveUrl E u b"
proof -
  have "resolveUrl E u b = u"
    using assms absolute_not_protocol_relative[OF assms]
    by (simp add: resolveUrl_def absolute_url_def)
  then show ?thesis by simp
qed

theorem resolveUrl_idempotent_on_absolute_witness:
  "absolute_url ''http://x.com/a.png'' \<and>
   resolveUrl sample_env (resolveUrl sample_env ''http://x.com/a.png'' ''https://y.com/'')
     ''https://y.com/'' = ''http://x.com/a.png''"
proof -
  have a: "absolute_url ''http://x.com/a.png''"
    by (simp add: absolute_url_def startsWith_def)
  show ?thesis
    using a resolveUrl_idempotent_on_absolute[OF a, of sample_env "''https://y.com/''"]
    by simp
qed

section \<open>Asset extraction\<close>







text \<open>
  Claim C9 at a concrete input. The resolver returns a reference that starts with
  \<open>data:\<close> as it is (\<open>resolveUrl_data\<close>), and no extracted reference has such a literal
  text (\<open>extracted_original\<close>). But the tests compare the spelling, and what the handler
  passes to \<open>fetchImage\<close> is the absolute form: the image written
  \<open>DATA:image/gif;base64,R0lG\<close> is extracted, the URL parser resolves it to
  \<open>data:image/gif;base64,R0lG\<close>, and that text is requested. In the network of this
  instance no other image request succeeds, and the job counts one fetched image.
\<close>

theorem data_url_passed_to_fetcher:
  \<open>startsWith ''data:image/gif;base64,R0lG'' ''data:'' \<and>
   map original (images (found (fetch_assets
       (env_of [Element ''img'' [(''src'', ''DATA:image/gif;base64,R0lG'')] []] data_image_get)
       ''s1'' sample_page empty_storage)))
     = [''DATA:image/gif;base64,R0lG''] \<and>
   map absolute (images (found (fetch_assets
       (env_of [Element ''img'' [(''src'', ''DATA:image/gif;base64,R0lG'')] []] data_image_get)
       ''s1'' sample_page empty_storage)))
     = [''data:image/gif;base64,R0lG''] \<and>
   imageResults (fetch_assets
       (env_of [Element ''img'' [(''src'', ''DATA:image/gif;base64,R0lG'')] []] data_image_get)
       ''s1'' sample_page empty_storage)
     = [True] \<and>
   fst (replicate_route
       (env_of [Element ''img'' [(''src'', ''DATA:image/gif;base64,R0lG'')] []] data_image_get)
       ''s1'' (Some ''http://x.test/'') empty_storage)
     = \<lparr>status = 200,
        json = Success ''<img src="data:image/gif;base64,UE5H"></img>'' 1 1 0\<rparr>\<close>
  by code_simp

section \<open>Storage\<close>

lemma getAssetMap_other_session:
  "a \<noteq> b \<Longrightarrow> getAssetMap (storeAsset st a k v) b = getAssetMap st b"
  by (simp add: getAssetMap_def storeAsset_def Let_def)

lemma map_of_set_prop:
  "map_of (set_prop obj k v) x
     = (if x = k \<and> k \<noteq> ''__proto__'' then Some v else map_of obj x)"
  by (simp add: set_prop_def update_conv')

lemma fold_set_prop_map_of:
  "distinct (map fst m) \<Longrightarrow>
   map_of (foldl (\<lambda>assetMap (k, v). set_prop assetMap k v) acc m) x
     = (if x = ''__proto__'' then map_of acc x else (map_of acc ++ map_of m) x)"
proof (induction m arbitrary: acc)
  case Nil
  then show ?case by simp
next
  case (Cons p m)
  obtain k v where p: "p = (k, v)" by (cases p)
  have none: "map_of m k = None"
    using Cons.prems p by (simp add: map_of_eq_None_iff)
  have "map_of (foldl (\<lambda>assetMap (k, v). set_prop assetMap k v) acc (p # m)) x
          = map_of (foldl (\<lambda>assetMap (k, v). set_prop assetMap k v) (set_prop acc k v) m) x"
    by (simp add: p)
  also have "\<dots> = (if x = ''__proto__'' then map_of (set_prop acc k v) x
                    else (map_of (set_prop acc k v) ++ map_of m) x)"
    using Cons.IH[of "set_prop acc k v"] Cons.prems by simp
  also have "\<dots> = (if x = ''__proto__'' then map_of acc x else (map_of acc ++ map_of (p # m)) x)"
    using none by (auto simp: p map_of_set_prop map_add_def split: option.splits)
  finally show ?case .
qed

lemma distinct_set_prop: "distinct (map fst obj) \<Longrightarrow> distinct (map fst (set_prop obj k v))"
  by (simp add: set_prop_def distinct_update)

lemma fold_set_prop_distinct:
  "distinct (map fst acc) \<Longrightarrow>
   distinct (map fst (foldl (\<lambda>assetMap (k, v). set_prop assetMap k v) acc m))"
  by (induction m arbitrary: acc) (auto simp: distinct_set_prop)

lemma tidy_empty: "tidy empty_storage b"
  by (simp add: tidy_def empty_storage_def)


lemma tidy_storeAsset: "tidy st b \<Longrightarrow> tidy (storeAsset st a k v) b"
  by (auto simp: tidy_def storeAsset_def Let_def distinct_update split: option.splits)

lemma tidy_clearSession: "tidy st b \<Longrightarrow> tidy (clearSession st a) b"
  by (auto simp: tidy_def clearSession_def split: option.splits)

lemma tidy_apply: "tidy st b \<Longrightarrow> tidy (apply_op st x) b"
  by (cases x) (simp_all add: tidy_storeAsset tidy_clearSession)

lemma tidy_run: "tidy st b \<Longrightarrow> tidy (foldl apply_op st ops) b"
  by (induction ops arbitrary: st) (auto simp: tidy_apply)


lemma session_map_apply: "session_map (apply_op st x) b = stored_step b (session_map st b) x"
  by (cases x)
     (auto simp: session_map_def storeAsset_def clearSession_def Let_def update_conv'
        split: option.splits)

lemma session_map_run:
  "session_map (foldl apply_op st ops) b = foldl (stored_step b) (session_map st b) ops"
  by (induction ops arbitrary: st) (auto simp: session_map_apply)

text \<open>
  The plain object \<open>getAssetMap\<close> returns owns what the session's \<open>Map\<close> holds, each key
  once, except an entry under the key \<open>__proto__\<close>.
\<close>

lemma getAssetMap_session_map:
  "tidy st b \<Longrightarrow>
   map_of (getAssetMap st b) x = (if x = ''__proto__'' then None else session_map st b x)"
  by (auto simp: getAssetMap_def session_map_def tidy_def fold_set_prop_map_of
      split: option.splits)

lemma getAssetMap_distinct: "distinct (map fst (getAssetMap st b))"
  by (auto simp: getAssetMap_def fold_set_prop_distinct split: option.splits)

lemma getAssetMap_history:
  "map_of (getAssetMap (foldl apply_op empty_storage ops) b) x
     = (if x = ''__proto__'' then None else foldl (stored_step b) Map.empty ops x)"
proof -
  have t: "tidy (foldl apply_op empty_storage ops) b"
    by (rule tidy_run) (rule tidy_empty)
  have "session_map empty_storage b = Map.empty"
    by (simp add: session_map_def empty_storage_def)
  then show ?thesis
    using getAssetMap_session_map[OF t] session_map_run by simp
qed

text \<open>
  Claim C8 at a concrete input. A store under one session id leaves the asset map of
  every other session as it was (\<open>getAssetMap_other_session\<close>), and the asset map of a
  session owns the pairs stored under it whose key is not \<open>__proto__\<close>
  (\<open>getAssetMap_history\<close>). A pair stored under the key \<open>__proto__\<close> is in the session's
  \<open>Map\<close> and is lost in the copy: the asset map owns nothing, and reading the key
  yields the prototype object. The key is the \<open>src\<close> of an image: the image arrives, the
  job counts it, and the \<open>src\<close> of the output is the text of that object.
\<close>

theorem proto_key_lost:
  \<open>store (storeAsset empty_storage ''s1'' ''__proto__'' ''data:image/png;base64,UE5H'') ''s1''
     = Some [(''__proto__'', ''data:image/png;base64,UE5H'')] \<and>
   getAssetMap (storeAsset empty_storage ''s1'' ''__proto__'' ''data:image/png;base64,UE5H'') ''s1''
     = [] \<and>
   get_prop (getAssetMap
       (storeAsset empty_storage ''s1'' ''__proto__'' ''data:image/png;base64,UE5H'') ''s1'')
     ''__proto__'' = Member ''__proto__'' \<and>
   map original (images (found (fetch_assets
       (env_of [Element ''img'' [(''src'', ''__proto__'')] []] sample_get)
       ''s1'' sample_page empty_storage)))
     = [''__proto__''] \<and>
   store (filled (fetch_assets
       (env_of [Element ''img'' [(''src'', ''__proto__'')] []] sample_get)
       ''s1'' sample_page empty_storage)) ''s1''
     = Some [(''__proto__'', ''data:image/png;base64,UE5H''),
             (''http://x.test/__proto__'', ''data:image/png;base64,UE5H'')] \<and>
   getAssetMap (filled (fetch_assets
       (env_of [Element ''img'' [(''src'', ''__proto__'')] []] sample_get)
       ''s1'' sample_page empty_storage)) ''s1''
     = [(''http://x.test/__proto__'', ''data:image/png;base64,UE5H'')] \<and>
   fst (replicate_route (env_of [Element ''img'' [(''src'', ''__proto__'')] []] sample_get)
       ''s1'' (Some ''http://x.test/'') empty_storage)
     = \<lparr>status = 200, json = Success ''<img src="[object Object]"></img>'' 1 1 0\<rparr>\<close>
  by code_simp

section \<open>The policy gate\<close>








section \<open>The session of a job\<close>

lemma cleared_storeAsset [simp]: "cleared (storeAsset st a k v) = cleared st"
  by (simp add: storeAsset_def Let_def)

lemma cleared_store_fetched [simp]: "cleared (store_fetched st a r f) = cleared st"
  by (simp add: store_fetched_def split: option.splits)

lemma cleared_fetch_stylesheets [simp]:
  "cleared (fetch_stylesheets E a u sheets st) = cleared st"
  unfolding fetch_stylesheets_def
  by (induction sheets arbitrary: st) simp_all

lemma cleared_fetch_batch_fold:
  "cleared (fst (foldl (\<lambda>(s, results) img.
              let dataUrl = fetchImage E (absolute img) u
              in (store_fetched s a img dataUrl, results @ [truthy dataUrl])) acc batch))
     = cleared (fst acc)"
  by (induction batch arbitrary: acc) (auto simp: Let_def split: prod.splits)

lemma cleared_fetch_batch [simp]:
  "cleared (fst (fetch_batch E a u batch st)) = cleared st"
  unfolding fetch_batch_def using cleared_fetch_batch_fold[of E u a "(st, [])" batch] by simp

lemma cleared_fetch_images [simp]:
  "cleared (fst (fetch_images E a u imgs i acc)) = cleared (fst acc)"
proof (induction E a u imgs i acc rule: fetch_images.induct)
  case (1 E sessionId pageUrl imgs i st imageResults)
  show ?case
  proof (cases "i < length imgs")
    case True
    obtain st' rs where
      b: "fetch_batch E sessionId pageUrl (take CONCURRENCY (drop i imgs)) st = (st', rs)"
      by (cases "fetch_batch E sessionId pageUrl (take CONCURRENCY (drop i imgs)) st")
    have "cleared st' = cleared st"
      using cleared_fetch_batch[of E sessionId pageUrl "take CONCURRENCY (drop i imgs)" st] b
      by simp
    then show ?thesis
      using True b "1.IH"[OF True refl b[symmetric]]
      by (simp add: fetch_images.simps[of E sessionId pageUrl imgs i st imageResults])
  next
    case False
    then show ?thesis
      by (simp add: fetch_images.simps[of E sessionId pageUrl imgs i st imageResults])
  qed
qed



lemma filled_fetch_assets:
  "filled (fetch_assets E a pg st)
     = fst (fetch_images E a (finalUrl pg)
              (images (extractAssets E (parse E (html pg)) (finalUrl pg))) 0
              (fetch_stylesheets E a (finalUrl pg)
                 (stylesheets (extractAssets E (parse E (html pg)) (finalUrl pg))) st, []))"
  by (simp add: fetch_assets_def Let_def case_prod_beta)

lemma cleared_fetch_assets [simp]: "cleared (filled (fetch_assets E a pg st)) = cleared st"
  by (simp add: filled_fetch_assets)

text \<open>
  Claim C7. A job that gets past input validation (the URL is a non-empty string that
  parses) leaves no entry under its session id, whether the page fetch fails, an
  exception ends the rewriting or the job succeeds, and on the way it calls
  \<open>clearSession\<close> exactly once, as its last call on the storage and with its own
  session id.
\<close>

theorem session_released:
  assumes "u \<noteq> []" and "new_URL E u None \<noteq> None"
  shows "store (snd (replicate_route E sessionId (Some u) st)) sessionId = None \<and>
         getAssetMap (snd (replicate_route E sessionId (Some u) st)) sessionId = [] \<and>
         cleared (snd (replicate_route E sessionId (Some u) st)) = cleared st @ [sessionId]"
proof -
  obtain parsed where p: "new_URL E u None = Some parsed"
    using assms(2) by auto
  show ?thesis
  proof (cases "fetchHTML E u")
    case (Inl message)
    then show ?thesis
      using assms(1) p by (simp add: replicate_route_def clearSession_def getAssetMap_def)
  next
    case (Inr pg)
    show ?thesis
    proof (cases "rewrite_job E sessionId pg (fetch_assets E sessionId pg st)")
      case (Normal r)
      then show ?thesis
        using assms(1) p Inr
        by (simp add: replicate_route_def clearSession_def getAssetMap_def Let_def)
    next
      case (Throw message)
      then show ?thesis
        using assms(1) p Inr
        by (simp add: replicate_route_def clearSession_def getAssetMap_def Let_def)
    qed
  qed
qed

theorem session_released_witness:
  "''http://x.test/'' \<noteq> [] \<and> new_URL sample_env ''http://x.test/'' None \<noteq> None \<and>
   status (fst (replicate_route sample_env ''s1'' (Some ''http://x.test/'') empty_storage)) = 200 \<and>
   store (filled (fetch_assets sample_env ''s1'' sample_page empty_storage)) ''s1'' \<noteq> None \<and>
   store (snd (replicate_route sample_env ''s1'' (Some ''http://x.test/'') empty_storage)) ''s1'' = None \<and>
   cleared (snd (replicate_route sample_env ''s1'' (Some ''http://x.test/'') empty_storage)) = [''s1''] \<and>
   status (fst (replicate_route (with_robots (Resolved 200 ''Disallow: /'' None None))
      ''s1'' (Some ''http://x.test/'') empty_storage)) = 500 \<and>
   store (snd (replicate_route (with_robots (Resolved 200 ''Disallow: /'' None None))
      ''s1'' (Some ''http://x.test/'') empty_storage)) ''s1'' = None \<and>
   cleared (snd (replicate_route (with_robots (Resolved 200 ''Disallow: /'' None None))
      ''s1'' (Some ''http://x.test/'') empty_storage)) = [''s1''] \<and>
   fst (replicate_route
      (env_of [Element ''img'' [(''src'', ''__defineGetter__'')] []] no_image_get)
      ''s1'' (Some ''http://x.test/'') empty_storage)
     = \<lparr>status = 500, json = Failure ''Object.prototype.__defineGetter__: Expecting function''\<rparr> \<and>
   store (snd (replicate_route
      (env_of [Element ''img'' [(''src'', ''__defineGetter__'')] []] no_image_get)
      ''s1'' (Some ''http://x.test/'') empty_storage)) ''s1'' = None \<and>
   cleared (snd (replicate_route
      (env_of [Element ''img'' [(''src'', ''__defineGetter__'')] []] no_image_get)
      ''s1'' (Some ''http://x.test/'') empty_storage)) = [''s1'']"
proof -
  let ?blocked = "with_robots (Resolved 200 ''Disallow: /'' None None)"
  let ?throwing = "env_of [Element ''img'' [(''src'', ''__defineGetter__'')] []] no_image_get"
  have v: "new_URL sample_env ''http://x.test/'' None \<noteq> None"
    "new_URL ?blocked ''http://x.test/'' None \<noteq> None"
    "new_URL ?throwing ''http://x.test/'' None \<noteq> None"
    by code_simp+
  have s: "status (fst (replicate_route sample_env ''s1'' (Some ''http://x.test/'') empty_storage)) = 200"
    "store (filled (fetch_assets sample_env ''s1'' sample_page empty_storage)) ''s1'' \<noteq> None"
    "status (fst (replicate_route ?blocked ''s1'' (Some ''http://x.test/'') empty_storage)) = 500"
    "fst (replicate_route ?throwing ''s1'' (Some ''http://x.test/'') empty_storage)
       = \<lparr>status = 500, json = Failure ''Object.prototype.__defineGetter__: Expecting function''\<rparr>"
    by code_simp+
  show ?thesis
    using v s session_released[OF _ v(1), of "''s1''" empty_storage]
      session_released[OF _ v(2), of "''s1''" empty_storage]
      session_released[OF _ v(3), of "''s1''" empty_storage]
    by (simp add: empty_storage_def)
qed

section \<open>Properties of every element of a tree\<close>

lemma every_elements:
  "every Q n \<longleftrightarrow> (\<forall>e \<in> set (elements n). Q (node_tag e) (node_attrs e))"
  by (induction n) (auto simp: node_tag_def node_attrs_def)

lemma every_all_elements:
  "(\<forall>n \<in> set doc. every Q n)
     \<longleftrightarrow> (\<forall>e \<in> set (all_elements doc). Q (node_tag e) (node_attrs e))"
  by (auto simp: all_elements_def every_elements)

lemma every_mono: "every Q n \<Longrightarrow> (\<And>t a. Q t a \<Longrightarrow> Q' t a) \<Longrightarrow> every Q' n"
  by (induction n) auto

lemma every_True: "every (\<lambda>t a. True) n"
  by (induction n) auto

lemma every_each_attr:
  "every Q n \<Longrightarrow> (\<And>t a. Q t a \<Longrightarrow> Q' t (if p t a then f a else a))
   \<Longrightarrow> every Q' (each_attr p f n)"
  by (induction n) auto

lemma every_map_each_attr:
  "\<forall>n \<in> set doc. every Q n \<Longrightarrow> (\<And>t a. Q t a \<Longrightarrow> Q' t (if p t a then f a else a))
   \<Longrightarrow> \<forall>m \<in> set (map (each_attr p f) doc). every Q' m"
  by (auto intro: every_each_attr)

lemma every_remove_sel:
  "every Q n \<Longrightarrow> \<forall>m \<in> set (remove_sel p n). every (\<lambda>t a. Q t a \<and> \<not> p t a) m"
  by (induction n) auto

lemma every_replace_sel:
  "every Q n \<Longrightarrow> (\<And>t a ns. r t a = Some ns \<Longrightarrow> \<forall>m \<in> set ns. every Q m)
   \<Longrightarrow> \<forall>m \<in> set (replace_sel r n). every Q m"
  by (induction n) (auto split: option.splits)

lemma every_concat_replace_sel:
  "\<forall>n \<in> set doc. every Q n \<Longrightarrow> (\<And>t a ns. r t a = Some ns \<Longrightarrow> \<forall>m \<in> set ns. every Q m)
   \<Longrightarrow> \<forall>m \<in> set (concat (map (replace_sel r) doc)). every Q m"
  using every_replace_sel[of Q _ r] by fastforce

lemma every_prepend_sel:
  "every Q n \<Longrightarrow> \<forall>m \<in> set ns. every Q m \<Longrightarrow> every Q (prepend_sel p ns n)"
  by (induction n) auto

lemma addReplicaBanner_every:
  "\<forall>n \<in> set doc. every Q n \<Longrightarrow> \<forall>n \<in> set (cheerio_parse E banner). every Q n
   \<Longrightarrow> \<forall>n \<in> set (addReplicaBanner E doc). every Q n"
  by (auto simp: addReplicaBanner_def intro: every_prepend_sel)

section \<open>Sanitization\<close>

lemma remove_sel_twice:
  "concat (map (remove_sel q) (remove_sel p n)) = remove_sel (\<lambda>t a. p t a \<or> q t a) n"
proof (induction n)
  case (Element t a cs)
  have "concat (map (remove_sel q) (concat (map (remove_sel p) cs)))
          = concat (map (remove_sel (\<lambda>t a. p t a \<or> q t a)) cs)"
    using Element by (induction cs) auto
  then show ?case by simp
qed simp_all

lemma remove_sel_list_twice:
  "concat (map (remove_sel q) (concat (map (remove_sel p) doc)))
     = concat (map (remove_sel (\<lambda>t a. p t a \<or> q t a)) doc)"
  by (induction doc) (auto simp: remove_sel_twice)

text \<open>The five removals, one tag after the other, prune the trees of every denylisted tag.\<close>

lemma strip_tags_prune:
  "foldl remove_tag doc STRIP_TAGS = concat (map (remove_sel denylisted) doc)"
proof -
  have "(\<lambda>t a. ((((sel_tag ''script'' t a \<or> sel_tag ''noscript'' t a) \<or> sel_tag ''iframe'' t a)
            \<or> sel_tag ''object'' t a) \<or> sel_tag ''embed'' t a)) = denylisted"
    by (auto simp: fun_eq_iff denylisted_def STRIP_TAGS_def sel_tag_def)
  then show ?thesis
    by (simp add: STRIP_TAGS_def remove_tag_def remove_sel_list_twice)
qed

lemma every_pruned:
  "\<forall>m \<in> set (concat (map (remove_sel denylisted) doc)). every (\<lambda>t a. \<not> denylisted t a) m"
  using every_remove_sel[where Q="\<lambda>t a. True" and p=denylisted] every_True by fastforce

lemma erase_each_attr: "erase (each_attr p f n) = erase n"
  unfolding erase_def by (induction n) (auto simp: sel_any_def)

lemma map_of_delete_all:
  "map_of (foldl (\<lambda>acc name. AList.delete name acc) a names) n
     = (if n \<in> set names then None else map_of a n)"
  by (induction names arbitrary: a) (auto simp: delete_conv')

lemma map_of_strip_attributes:
  "map_of (strip_attributes a) n = (if n \<in> set STRIP_ATTRIBUTES then None else map_of a n)"
  unfolding strip_attributes_def by (rule map_of_delete_all)

lemma inert_update:
  "k \<notin> set STRIP_ATTRIBUTES \<Longrightarrow> k \<noteq> ''action'' \<Longrightarrow> inert t a
   \<Longrightarrow> inert t (AList.update k v a)"
  unfolding inert_def by (auto simp: update_conv')

lemma disabled_not_handler: "''disabled'' \<notin> set STRIP_ATTRIBUTES"
  by (simp add: STRIP_ATTRIBUTES_def)

lemma inert_disable_control: "inert t a \<Longrightarrow> inert t (disable_control a)"
  unfolding disable_control_def
  by (rule inert_update[OF disabled_not_handler]) simp_all

lemma disabled_control: "sel_controls t a \<Longrightarrow> disabled t (disable_control a)"
  by (auto simp: disabled_def sel_controls_def disable_control_def update_conv')

lemma disabled_other:
  "inert t a \<Longrightarrow> (t = ''form'' \<longrightarrow> map_of a ''onsubmit'' = Some ''return false;'')
   \<Longrightarrow> \<not> sel_controls t a \<Longrightarrow> disabled t a"
  by (simp add: inert_def disabled_def sel_controls_def)

lemma stripUnsafeContent_every:
  "\<forall>n \<in> set (stripUnsafeContent doc). every (\<lambda>t a. inert t a \<and> disabled t a) n"
proof -
  let ?d1 = "concat (map (remove_sel denylisted) doc)"
  let ?d2 = "map (each_attr sel_any strip_attributes) ?d1"
  let ?d3 = "map (each_attr (sel_tag ''form'') disable_form) ?d2"
  let ?Q1 = "\<lambda>t (a::attrs). t \<notin> set STRIP_TAGS"
  let ?Q2 = "\<lambda>t a. t \<notin> set STRIP_TAGS \<and> (\<forall>n \<in> set STRIP_ATTRIBUTES. map_of a n = None)"
  let ?Q3 = "\<lambda>t a. inert t a \<and> (t = ''form'' \<longrightarrow> map_of a ''onsubmit'' = Some ''return false;'')"
  have 1: "\<forall>m \<in> set ?d1. every ?Q1 m"
    using every_pruned[of doc] by (simp add: denylisted_def)
  have 2: "\<forall>m \<in> set ?d2. every ?Q2 m"
  proof (rule every_map_each_attr[OF 1])
    fix t and a :: attrs
    assume "t \<notin> set STRIP_TAGS"
    then show "?Q2 t (if sel_any t a then strip_attributes a else a)"
      by (simp add: sel_any_def map_of_strip_attributes)
  qed
  have 3: "\<forall>m \<in> set ?d3. every ?Q3 m"
  proof (rule every_map_each_attr[OF 2])
    fix t and a :: attrs
    assume "?Q2 t a"
    then show "?Q3 t (if sel_tag ''form'' t a then disable_form a else a)"
      by (auto simp: inert_def sel_tag_def disable_form_def delete_conv' update_conv')
  qed
  have 4: "\<forall>m \<in> set (map (each_attr sel_controls disable_control) ?d3).
             every (\<lambda>t a. inert t a \<and> disabled t a) m"
  proof (rule every_map_each_attr[OF 3])
    fix t and a :: attrs
    assume "?Q3 t a"
    then show "inert t (if sel_controls t a then disable_control a else a) \<and>
               disabled t (if sel_controls t a then disable_control a else a)"
      by (simp add: inert_disable_control disabled_control disabled_other)
  qed
  show ?thesis
    using 4 by (simp add: stripUnsafeContent_def strip_tags_prune)
qed

lemma stripUnsafeContent_erase:
  "map erase (stripUnsafeContent doc) = map erase (concat (map (remove_sel denylisted) doc))"
  by (simp add: stripUnsafeContent_def strip_tags_prune erase_each_attr)

text \<open>
  Claim C5, as the code has it. After \<open>stripUnsafeContent\<close> every form carries \<open>onsubmit="return false;"\<close>
  (a name of the event-handler denylist) and no action attribute, and every input,
  textarea and button carries \<open>disabled="disabled"\<close>. These elements are kept unless
  they lie inside an element of the tag denylist: with attributes erased, the result
  is the document pruned of the elements of the tag denylist (each with everything in
  it), on which form, input, textarea and button are not.
\<close>

theorem forms_and_controls_disabled:
  "(\<forall>e \<in> set (all_elements (stripUnsafeContent doc)). disabled (node_tag e) (node_attrs e)) \<and>
   ''onsubmit'' \<in> set STRIP_ATTRIBUTES \<and>
   map erase (stripUnsafeContent doc) = map erase (concat (map (remove_sel denylisted) doc)) \<and>
   \<not> denylisted ''form'' a \<and> \<not> denylisted ''input'' a \<and>
   \<not> denylisted ''textarea'' a \<and> \<not> denylisted ''button'' a"
proof -
  have "\<forall>n \<in> set (stripUnsafeContent doc). every disabled n"
    using stripUnsafeContent_every[of doc] by (auto elim: every_mono)
  then have "\<forall>e \<in> set (all_elements (stripUnsafeContent doc)). disabled (node_tag e) (node_attrs e)"
    by (simp add: every_all_elements)
  then show ?thesis
    by (simp add: stripUnsafeContent_erase denylisted_def STRIP_TAGS_def STRIP_ATTRIBUTES_def)
qed

theorem forms_and_controls_disabled_witness:
  "Element ''form'' [(''onsubmit'', ''return false;'')]
     [Element ''input'' [(''name'', ''q''), (''disabled'', ''disabled'')] [],
      Element ''button'' [(''disabled'', ''disabled'')] [Text ''Go'']]
     \<in> set (all_elements (stripUnsafeContent sample_document)) \<and>
   disabled ''form'' [(''onsubmit'', ''return false;'')] \<and>
   Element ''input'' [(''name'', ''q''), (''disabled'', ''disabled'')] []
     \<in> set (all_elements (stripUnsafeContent sample_document)) \<and>
   disabled ''input'' [(''name'', ''q''), (''disabled'', ''disabled'')]"
proof -
  have m: "Element ''form'' [(''onsubmit'', ''return false;'')]
     [Element ''input'' [(''name'', ''q''), (''disabled'', ''disabled'')] [],
      Element ''button'' [(''disabled'', ''disabled'')] [Text ''Go'']]
     \<in> set (all_elements (stripUnsafeContent sample_document))"
    by code_simp
  have i: "Element ''input'' [(''name'', ''q''), (''disabled'', ''disabled'')] []
     \<in> set (all_elements (stripUnsafeContent sample_document))"
    by code_simp
  have all: "\<forall>e \<in> set (all_elements (stripUnsafeContent sample_document)).
               disabled (node_tag e) (node_attrs e)"
    using forms_and_controls_disabled[of sample_document] by blast
  show ?thesis
    using m i all[rule_format, OF m] all[rule_format, OF i]
    by (simp add: node_tag_def node_attrs_def)
qed

text \<open>
  The claim as the spec states it fails for a form inside an \<open>object\<close> element: the
  form and its input are not kept in the tree, they go with the \<open>object\<close>.
\<close>

theorem forms_and_controls_disabled_counterexample:
  "map node_tag (all_elements
     [Element ''div'' []
        [Element ''object'' [(''data'', ''movie.swf'')]
           [Element ''form'' [(''action'', ''/post'')] [Element ''input'' [(''name'', ''q'')] []]]]])
     = [''div'', ''object'', ''form'', ''input''] \<and>
   stripUnsafeContent
     [Element ''div'' []
        [Element ''object'' [(''data'', ''movie.swf'')]
           [Element ''form'' [(''action'', ''/post'')] [Element ''input'' [(''name'', ''q'')] []]]]]
     = [Element ''div'' [] []]"
  by code_simp


section \<open>The rewriting pipeline\<close>

text \<open>
  Claim C1 at a concrete input. The page has a script, an \<open>onclick\<close>, a form with an
  action and a link to a stylesheet whose text is
  \<open></style><script>alert(1)</script>\<close>. Sanitization removes the page's script, and
  then the rewriter splices the fetched text into the markup of a style block: the
  parser closes the style element where the text says so and reads the rest as a
  script element, which the output keeps, with status 200. (The form of the output
  also carries \<open>onsubmit="return false;"\<close>, which sanitization puts there on purpose.)
\<close>

theorem inlined_stylesheet_brings_script:
  \<open>map node_tag (select (sel_tag ''script'') evil_document) = [''script''] \<and>
   select (sel_tag ''script'') (stripUnsafeContent evil_document) = [] \<and>
   fetchCSS (env_of evil_document sample_get) ''http://x.test/evil.css'' ''http://x.test/''
     = Some ''</style><script>alert(1)</script>'' \<and>
   rewrite_job (env_of evil_document sample_get) ''s1'' sample_page
       (fetch_assets (env_of evil_document sample_get) ''s1'' sample_page empty_storage)
     = Normal
        \<lparr>processed =
           [(''evil.css'', ''</style><script>alert(1)</script>''),
            (''http://x.test/evil.css'', ''</style><script>alert(1)</script>'')],
         replica =
           [Element ''html'' []
              [Element ''head'' []
                 [Element ''style'' [(''type'', ''text/css'')] [Text []],
                  Element ''script'' [] [Text ''alert(1)'']],
               Element ''body'' []
                 [Element ''div'' [(''style'', ''position: fixed;'')] [Text ''REPLICATED SITE''],
                  Element ''p'' [] [Text ''Hello''],
                  Element ''form'' [(''onsubmit'', ''return false;'')] []]]]\<rparr> \<and>
   fst (replicate_route (env_of evil_document sample_get) ''s1'' (Some ''http://x.test/'')
          empty_storage)
     = \<lparr>status = 200,
        json = Success
          (''<html><head><style type="text/css"></style><script>alert(1)</script></head>''
           @ ''<body><div style="position: fixed;">REPLICATED SITE</div><p>Hello</p>''
           @ ''<form onsubmit="return false;"></form></body></html>'')
          0 0 1\<rparr>\<close>
  by code_simp

text \<open>
  Claim C2 at a concrete input. The asset map holds the image's data under the
  absolute form of its \<open>src\<close> only; the rewriter, given the base URL, leaves the image
  as it was. The stylesheet link beside it is matched under its absolute key when the
  base URL is passed, and is not when the caller passes none (as \<open>replicate\<close> does).
\<close>

theorem image_absolute_key_not_matched:
  "resolveUrl sample_env ''a.png'' ''http://x.test/'' = ''http://x.test/a.png'' \<and>
   rewriteAssets sample_env [Element ''img'' [(''src'', ''a.png'')] []]
     [(''http://x.test/a.png'', ''data:image/png;base64,UE5H'')] (Some ''http://x.test/'')
     = Normal [Element ''img'' [(''src'', ''a.png'')] []] \<and>
   resolveUrl sample_env ''a.css'' ''http://x.test/'' = ''http://x.test/a.css'' \<and>
   rewriteAssets sample_env [Element ''link'' [(''rel'', ''stylesheet''), (''href'', ''a.css'')] []]
     [(''http://x.test/a.css'', ''body{color:red}'')] (Some ''http://x.test/'')
     = Normal [Element ''style'' [(''type'', ''text/css'')] [Text ''body{color:red}'']] \<and>
   rewriteAssets sample_env [Element ''link'' [(''rel'', ''stylesheet''), (''href'', ''a.css'')] []]
     [(''http://x.test/a.css'', ''body{color:red}'')] None
     = Normal [Element ''link'' [(''rel'', ''stylesheet''), (''href'', ''a.css'')] []]"
  by code_simp

section \<open>Loops that may throw\<close>






section \<open>The substitution when nothing throws\<close>













section \<open>Partial failure\<close>

subsection \<open>The image results\<close>









subsection \<open>The keys a job writes\<close>
















subsection \<open>The images of the rewritten document\<close>

lemma collect_Nil [simp]: "collect g [] = []"
  by (simp add: collect_def all_elements_def)


lemma collect_Cons: "collect g (n # ns) = collect g [n] @ collect g ns"
  by (simp add: collect_def all_elements_def)



lemma collect_Text [simp]: "collect g [Text s] = []" "collect g [Comment s] = []"
  by (simp_all add: collect_def all_elements_def)



























section \<open>Stylesheet inlining\<close>

subsection \<open>What the third loop replaces\<close>












lemma node_tag_each_attr [simp]: "node_tag (each_attr p f e) = node_tag e"
  by (cases e) (simp_all add: node_tag_def)

lemma node_attrs_each_attr:
  "node_attrs (each_attr p f (Element t a cs)) = (if p t a then f a else a)"
  by (simp add: node_attrs_def)






subsection \<open>What stays a link\<close>




lemma tags_attrs_front: "tags_attrs (n # ns) = tags_attrs [n] @ tags_attrs ns"
  unfolding tags_attrs_def by (rule collect_Cons)

lemma tags_attrs_leaf [simp]: "tags_attrs [Text s] = []" "tags_attrs [Comment s] = []" "tags_attrs [] = []"
  by (simp_all add: tags_attrs_def)






subsection \<open>The text under the key of a stylesheet\<close>









lemma entries_map_of:
  assumes "distinct (map fst obj)"
  shows "map_of (entries obj) = map_of obj"
proof -
  let ?A = "sort_key (\<lambda>(k, v). index_value k) (filter (\<lambda>(k, v). is_array_index k) obj)"
  let ?B = "filter (\<lambda>(k, v). \<not> is_array_index k) obj"
  have d: "distinct obj" and inj: "inj_on fst (set obj)"
    using assms by (simp_all add: distinct_map)
  have s: "set (?A @ ?B) = set obj" by auto
  have "distinct (?A @ ?B)" using d by auto
  then have "distinct (map fst (?A @ ?B))"
    using inj unfolding distinct_map s by simp
  then have "map_of (?A @ ?B) = map_of obj"
    using map_of_inject_set[of "?A @ ?B" obj] assms s by blast
  then show ?thesis by (simp only: entries_def)
qed






subsection \<open>The links of the sanitized document\<close>













section \<open>The capture of a matched text\<close>

text \<open>
  The source matches each text it found once more to read the capture. For the
  \<open>url()\<close> pattern the second match is the first one again. For \<open>@import\<close> the second
  pattern has no \<open>@import\<close> prefix and matches at the start of the text, so the capture
  is the word \<open>@import\<close> itself, whatever the rule imports.
\<close>

lemma opt_quote_shape:
  "opt_quote s = (q, r) \<Longrightarrow> s = q @ r \<and> (q = [] \<or> (\<exists>c. q = [c] \<and> is_quote c))"
  by (cases s) (auto split: if_splits)

lemma opt_quote_rebuild:
  "q = [] \<or> (\<exists>c. q = [c] \<and> is_quote c) \<Longrightarrow> r \<noteq> [] \<Longrightarrow> \<not> is_quote (hd r)
   \<Longrightarrow> opt_quote (q @ r) = (q, r)"
  by (cases r) auto

lemma takeWhile_holds: "x \<in> set (takeWhile P xs) \<Longrightarrow> P x"
  by (auto dest: set_takeWhileD)

lemma takeWhile_run:
  "r \<noteq> [] \<Longrightarrow> \<not> P (hd r) \<Longrightarrow> takeWhile P (takeWhile P xs @ r) = takeWhile P xs"
  using takeWhile_append2[of "takeWhile P xs" P r] takeWhile_holds[of _ P xs]
  by (cases r) auto

lemma dropWhile_run:
  "r \<noteq> [] \<Longrightarrow> \<not> P (hd r) \<Longrightarrow> dropWhile P (takeWhile P xs @ r) = r"
  using dropWhile_append2[of "takeWhile P xs" P r] takeWhile_holds[of _ P xs]
  by (cases r) auto

lemma run_not_quote: "takeWhile url_char xs \<noteq> [] \<Longrightarrow> \<not> is_quote (hd (takeWhile url_char xs))"
  by (cases xs) (auto simp: url_char_def split: if_splits)

lemma url_at_rematch:
  assumes "url_at s = Some (m, g)"
  shows "url_at m = Some (m, g)"
proof -
  obtain q1 s1 where o1: "opt_quote (drop 4 s) = (q1, s1)" by (cases "opt_quote (drop 4 s)")
  obtain q2 s2 where o2: "opt_quote (dropWhile url_char s1) = (q2, s2)"
    by (cases "opt_quote (dropWhile url_char s1)")
  let ?run = "takeWhile url_char s1"
  from assms o1 o2 have run: "?run \<noteq> []"
    and s2: "s2 \<noteq> [] \<and> hd s2 = CHR 0x29"
    and m: "m = ''url('' @ q1 @ ?run @ q2 @ '')''" and g: "g = ?run"
    by (auto simp: url_at_def Let_def split: if_splits list.splits)
  have q1: "q1 = [] \<or> (\<exists>c. q1 = [c] \<and> is_quote c)" using opt_quote_shape[OF o1] by simp
  have q2: "q2 = [] \<or> (\<exists>c. q2 = [c] \<and> is_quote c)" using opt_quote_shape[OF o2] by simp
  have tail: "q2 @ '')'' \<noteq> [] \<and> \<not> url_char (hd (q2 @ '')''))"
    using q2 by (auto simp: url_char_def)
  have a: "opt_quote (q1 @ (?run @ q2 @ '')'')) = (q1, ?run @ q2 @ '')'')"
    by (rule opt_quote_rebuild[OF q1]) (use run run_not_quote[of s1] in auto)
  have b: "takeWhile url_char (?run @ (q2 @ '')'')) = ?run"
    by (rule takeWhile_run) (use tail in auto)
  have c: "dropWhile url_char (?run @ (q2 @ '')'')) = q2 @ '')''"
    by (rule dropWhile_run) (use tail in auto)
  have d: "opt_quote (q2 @ '')'') = (q2, '')'')"
    by (rule opt_quote_rebuild[OF q2]) (auto simp: is_quote_def)
  have "drop 4 m = q1 @ ?run @ q2 @ '')''" by (simp add: m)
  moreover have "startsWith m ''url(''" by (simp add: m startsWith_def)
  ultimately show ?thesis
    using a b c d run by (simp add: url_at_def Let_def m g)
qed

lemma match_all_from:
  "m \<in> set (match_all re k s) \<Longrightarrow> \<exists>s' g. re s' = Some (m, g)"
  by (induction re k s rule: match_all.induct) (auto split: option.splits)

lemma exec1_hit: "re m = Some (m', g) \<Longrightarrow> m \<noteq> [] \<Longrightarrow> exec1 re m = Some g"
  by (cases m) auto

lemma url_at_nonempty: "url_at s = Some (m, g) \<Longrightarrow> m \<noteq> []"
  by (auto simp: url_at_def Let_def split: if_splits list.splits prod.splits)

lemma exec1_match_all:
  assumes "m \<in> set (match_all url_at k s)"
  shows "\<exists>g. exec1 url_at m = Some g"
proof -
  obtain s' g where "url_at s' = Some (m, g)" using match_all_from[OF assms] by blast
  then show ?thesis using url_at_rematch url_at_nonempty exec1_hit by blast
qed

lemma import_at_shape:
  "import_at s = Some (m, g) \<Longrightarrow> \<exists>ws rest. m = ''@import'' @ ws @ rest \<and> ws \<noteq> [] \<and> is_space (hd ws)"
proof -
  assume a: "import_at s = Some (m, g)"
  let ?ws = "takeWhile is_space (drop 7 s)"
  from a have ws: "?ws \<noteq> []" by (auto simp: import_at_def Let_def split: if_splits)
  then have sp: "is_space (hd ?ws)" by (cases "drop 7 s") (auto split: if_splits)
  from a ws have "\<exists>rest. m = ''@import'' @ ?ws @ rest"
    by (auto simp: import_at_def Let_def split: if_splits option.splits)
  then show ?thesis using ws sp by blast
qed

lemma exec1_import_match:
  assumes "m \<in> set (match_all import_at k s)"
  shows "exec1 plain_at m = Some ''@import''"
proof -
  obtain s' g where "import_at s' = Some (m, g)" using match_all_from[OF assms] by blast
  then obtain ws rest where m: "m = ''@import'' @ ws @ rest" and ws: "ws \<noteq> []" "is_space (hd ws)"
    using import_at_shape by blast
  obtain w ws' where w: "ws = w # ws'" using ws(1) by (cases ws) auto
  have nw: "\<not> url_char w" using ws(2) w by (simp add: url_char_def)
  have lit: "takeWhile url_char (''@import'' @ t) = ''@import'' @ takeWhile url_char t"
    and litd: "dropWhile url_char (''@import'' @ t) = dropWhile url_char t" for t
    by (simp_all add: url_char_def is_quote_def is_space_def)
  have oq: "opt_quote m = ([], m)"
    by (simp add: m is_quote_def)
  have run: "takeWhile url_char m = ''@import''"
    unfolding m lit using nw by (simp add: w)
  have "plain_at m = Some (''@import'' @ fst (opt_quote (dropWhile url_char m)), ''@import'')"
    by (simp add: plain_at_def oq run Let_def case_prod_beta)
  then show ?thesis by (simp add: m)
qed

end
